theory Spec2Isabelle
  imports Main
begin

section \<open>Pointers, status codes and host values\<close>

text \<open>
  The wrapper layer of \<^verbatim>\<open>src/napi-inl.h\<close> is embedded over an explicit model of the host
  runtime. Every pointer type of the C interface is a natural number with \<open>0\<close> for
  \<^verbatim>\<open>nullptr\<close>. A C++ function that may throw returns a sum: \<open>Inl (Throw e)\<close> is a thrown
  \<^verbatim>\<open>Napi::Error\<close>, \<open>Inl UB\<close> is undefined behaviour (a read through a dangling or
  out-of-range pointer), \<open>Inr x\<close> is a normal return.
\<close>

type_synonym napi_env = nat
type_synonym napi_value = nat
type_synonym napi_ref = nat
type_synonym native_ptr = nat
type_synonym fun_ptr = nat

abbreviation nullptr :: nat where
  "nullptr \<equiv> 0"

datatype napi_status =
    napi_ok
  | napi_invalid_arg
  | napi_object_expected
  | napi_string_expected
  | napi_function_expected
  | napi_number_expected
  | napi_boolean_expected
  | napi_generic_failure
  | napi_pending_exception

datatype napi_valuetype =
    napi_undefined
  | napi_null
  | napi_boolean
  | napi_number
  | napi_string
  | napi_symbol
  | napi_object
  | napi_function
  | napi_external

datatype error_kind = GenericError | TypeError | RangeError

text \<open>What a script function does when the host calls it: it returns a value or throws one.\<close>

datatype js_outcome = Returns napi_value | Throws napi_value

text \<open>The fixed native entry points (trampolines) a created function is registered against.\<close>

datatype native_entry =
    VoidFunctionCallbackWrapper_entry
  | FunctionCallbackWrapper_entry
  | ConstructorCallbackWrapper_entry
  | InstanceVoidMethodCallbackWrapper_entry
  | InstanceMethodCallbackWrapper_entry
  | InstanceGetterCallbackWrapper_entry
  | InstanceSetterCallbackWrapper_entry

text \<open>
  The cells of the host heap. An object carries the native pointer attached to it by
  \<^verbatim>\<open>napi_wrap\<close> (\<open>nullptr\<close> when nothing is attached); a function created by
  \<^verbatim>\<open>napi_create_function\<close> carries its trampoline and the data pointer given at
  registration; a class made by \<^verbatim>\<open>napi_define_class\<close> carries its data pointer and the
  data pointers of its property descriptors.
\<close>

datatype js_value =
    JUndefined
  | JNull
  | JGlobal
  | JString string
  | JObject native_ptr
  | JError error_kind string
  | JFunction js_outcome
  | JNativeFunction native_entry native_ptr
  | JClass native_ptr "native_ptr list"

record Error =
  err_env :: napi_env
  err_value :: napi_value

datatype abort = UB | Throw Error

record Value =
  val_env :: napi_env
  val_value :: napi_value

record Reference =
  ref_env :: napi_env
  ref_ref :: napi_ref
  ref_suppressDestruct :: bool

record CallbackData =
  cd_callback :: fun_ptr
  cd_setter :: fun_ptr
  cd_data :: native_ptr

text \<open>The entry points of the C interface that the wrappers call, as they appear in the trace.\<close>

datatype abi_call =
    Abi_is_exception_pending
  | Abi_get_and_clear_last_exception
  | Abi_get_last_error_info
  | Abi_create_string_utf8 string
  | Abi_create_error error_kind napi_value
  | Abi_throw napi_value
  | Abi_throw_type_error string
  | Abi_get_global
  | Abi_get_undefined
  | Abi_typeof napi_value
  | Abi_create_reference napi_value int
  | Abi_delete_reference napi_ref
  | Abi_get_reference_value napi_ref
  | Abi_reference_ref napi_ref
  | Abi_reference_unref napi_ref
  | Abi_get_cb_this
  | Abi_get_cb_args_length
  | Abi_get_cb_args nat
  | Abi_get_cb_data
  | Abi_is_construct_call
  | Abi_set_return_value napi_value
  | Abi_wrap napi_value native_ptr
  | Abi_unwrap napi_value
  | Abi_create_function native_ptr
  | Abi_define_class native_ptr "native_ptr list"
  | Abi_open_handle_scope
  | Abi_close_handle_scope
  | Abi_open_escapable_handle_scope
  | Abi_close_escapable_handle_scope
  | Abi_escape_handle napi_value
  | Abi_make_callback napi_value napi_value "napi_value list"

text \<open>
  The state of the world: the host heap (a handle \<open>v\<close> names cell \<open>v - 1\<close>; a collected
  value leaves \<open>None\<close>), the pending exception, the interface's last-error record (the
  storage that \<^verbatim>\<open>napi_get_last_error_info\<close> hands out a pointer to) with the interface's
  message table, the table of roots (referent and count; the
  referent is \<open>nullptr\<close> once collected), the number of open scopes, the return slot of
  the running call frame, the native heap (registration metadata, wrapped instances) and
  the trace of entry points called so far.
\<close>

record napi_extended_error_info =
  error_message :: "string option"
  error_code :: napi_status

record state =
  heap :: "js_value option list"
  pending :: "napi_value option"
  last_error :: napi_extended_error_info
  error_messages :: "napi_status \<Rightarrow> string option"
  refs :: "(napi_value \<times> int) option list"
  scopes :: nat
  return_slot :: "napi_value option"
  cbdata :: "CallbackData option list"
  instances :: "Reference option list"
  trace :: "abi_call list"

text \<open>The call frame the host hands to a trampoline (\<^verbatim>\<open>napi_callback_info\<close>).\<close>

record frame =
  cb_this :: napi_value
  cb_args :: "napi_value list"
  cb_data :: native_ptr
  cb_construct :: bool

section \<open>Cells addressed by pointers\<close>

definition cell :: "'a option list \<Rightarrow> nat \<Rightarrow> 'a option" where
  "cell xs p = (if p = nullptr \<or> length xs < p then None else xs ! (p - 1))"

definition store :: "'a option list \<Rightarrow> 'a \<Rightarrow> nat \<times> 'a option list" where
  "store xs x = (Suc (length xs), xs @ [Some x])"

definition release :: "'a option list \<Rightarrow> nat \<Rightarrow> 'a option list" where
  "release xs p = (if p = nullptr \<or> length xs < p then xs else xs[p - 1 := None])"

definition assign :: "'a option list \<Rightarrow> nat \<Rightarrow> 'a \<Rightarrow> 'a option list" where
  "assign xs p x = (if p = nullptr \<or> length xs < p then xs else xs[p - 1 := Some x])"

section \<open>The host interface\<close>

text \<open>
  The entry points are not part of the repository; they are modelled by their documented
  contract. Each one appends itself to the trace and, as it starts, resets the code of
  the last-error record to \<^verbatim>\<open>napi_ok\<close>, so the record of a failure lasts until the next
  entry point is called; \<^verbatim>\<open>napi_get_last_error_info\<close> alone leaves the code as it is. An
  entry point fails only on an argument that does not name what it needs, and a failure
  stores its status in the record.
\<close>

definition traced :: "abi_call \<Rightarrow> state \<Rightarrow> state" where
  "traced c h = h\<lparr>trace := trace h @ [c]\<rparr>"

definition called :: "abi_call \<Rightarrow> state \<Rightarrow> state" where
  "called c h = (traced c h)\<lparr>last_error := (last_error h)\<lparr>error_code := napi_ok\<rparr>\<rparr>"

definition failed :: "napi_status \<Rightarrow> state \<Rightarrow> state" where
  "failed st h = h\<lparr>last_error := (last_error h)\<lparr>error_code := st\<rparr>\<rparr>"

definition alloc_value :: "js_value \<Rightarrow> state \<Rightarrow> napi_value \<times> state" where
  "alloc_value jv h = (case store (heap h) jv of (v, hp) \<Rightarrow> (v, h\<lparr>heap := hp\<rparr>))"

definition napi_is_exception_pending :: "napi_env \<Rightarrow> state \<Rightarrow> napi_status \<times> bool \<times> state" where
  "napi_is_exception_pending env h =
     (napi_ok, pending h \<noteq> None, called Abi_is_exception_pending h)"

definition napi_get_and_clear_last_exception ::
  "napi_env \<Rightarrow> state \<Rightarrow> napi_status \<times> napi_value \<times> state" where
  "napi_get_and_clear_last_exception env h =
     (let h1 = called Abi_get_and_clear_last_exception h in
      case pending h1 of
        None \<Rightarrow> (case alloc_value JUndefined h1 of (v, h2) \<Rightarrow> (napi_ok, v, h2))
      | Some e \<Rightarrow> (napi_ok, e, h1\<lparr>pending := None\<rparr>))"

text \<open>
  \<^verbatim>\<open>napi_get_last_error_info\<close> looks the message of the recorded code up in the table,
  stores it in the record and returns a pointer to the record: the caller reads the
  fields from \<open>last_error\<close> of the state in which it dereferences the pointer.
\<close>

definition napi_get_last_error_info :: "state \<Rightarrow> state" where
  "napi_get_last_error_info h =
     (traced Abi_get_last_error_info h)
       \<lparr>last_error :=
          (last_error h)\<lparr>error_message := error_messages h (error_code (last_error h))\<rparr>\<rparr>"

definition napi_create_string_utf8 ::
  "napi_env \<Rightarrow> string \<Rightarrow> state \<Rightarrow> napi_status \<times> napi_value \<times> state" where
  "napi_create_string_utf8 env s h =
     (case alloc_value (JString s) (called (Abi_create_string_utf8 s) h) of
        (v, h1) \<Rightarrow> (napi_ok, v, h1))"

text \<open>
  \<^verbatim>\<open>napi_create_error\<close>, \<^verbatim>\<open>napi_create_type_error\<close> and \<^verbatim>\<open>napi_create_range_error\<close>
  differ in the kind of the error object only.
\<close>

definition create_error_fn ::
  "error_kind \<Rightarrow> napi_env \<Rightarrow> napi_value \<Rightarrow> state \<Rightarrow> napi_status \<times> napi_value \<times> state" where
  "create_error_fn k env msg h =
     (let h1 = called (Abi_create_error k msg) h in
      case cell (heap h1) msg of
        Some (JString s) \<Rightarrow> (case alloc_value (JError k s) h1 of (v, h2) \<Rightarrow> (napi_ok, v, h2))
      | _ \<Rightarrow> (napi_string_expected, nullptr, failed napi_string_expected h1))"

abbreviation napi_create_error ::
  "napi_env \<Rightarrow> napi_value \<Rightarrow> state \<Rightarrow> napi_status \<times> napi_value \<times> state" where
  "napi_create_error \<equiv> create_error_fn GenericError"

abbreviation napi_create_type_error ::
  "napi_env \<Rightarrow> napi_value \<Rightarrow> state \<Rightarrow> napi_status \<times> napi_value \<times> state" where
  "napi_create_type_error \<equiv> create_error_fn TypeError"

abbreviation napi_create_range_error ::
  "napi_env \<Rightarrow> napi_value \<Rightarrow> state \<Rightarrow> napi_status \<times> napi_value \<times> state" where
  "napi_create_range_error \<equiv> create_error_fn RangeError"

definition napi_throw :: "napi_env \<Rightarrow> napi_value \<Rightarrow> state \<Rightarrow> napi_status \<times> state" where
  "napi_throw env v h =
     (let h1 = called (Abi_throw v) h in
      if v = nullptr then (napi_invalid_arg, failed napi_invalid_arg h1)
      else (napi_ok, h1\<lparr>pending := Some v\<rparr>))"

definition napi_throw_type_error :: "napi_env \<Rightarrow> string \<Rightarrow> state \<Rightarrow> napi_status \<times> state" where
  "napi_throw_type_error env msg h =
     (case alloc_value (JError TypeError msg) (called (Abi_throw_type_error msg) h) of
        (v, h1) \<Rightarrow> (napi_ok, h1\<lparr>pending := Some v\<rparr>))"

definition napi_get_global :: "napi_env \<Rightarrow> state \<Rightarrow> napi_status \<times> napi_value \<times> state" where
  "napi_get_global env h =
     (case alloc_value JGlobal (called Abi_get_global h) of (v, h1) \<Rightarrow> (napi_ok, v, h1))"

definition napi_get_undefined :: "napi_env \<Rightarrow> state \<Rightarrow> napi_status \<times> napi_value \<times> state" where
  "napi_get_undefined env h =
     (case alloc_value JUndefined (called Abi_get_undefined h) of (v, h1) \<Rightarrow> (napi_ok, v, h1))"

fun type_of_cell :: "js_value \<Rightarrow> napi_valuetype" where
  "type_of_cell JUndefined = napi_undefined"
| "type_of_cell JNull = napi_null"
| "type_of_cell JGlobal = napi_object"
| "type_of_cell (JString s) = napi_string"
| "type_of_cell (JObject p) = napi_object"
| "type_of_cell (JError k s) = napi_object"
| "type_of_cell (JFunction f) = napi_function"
| "type_of_cell (JNativeFunction t p) = napi_function"
| "type_of_cell (JClass p ps) = napi_function"

definition napi_typeof ::
  "napi_env \<Rightarrow> napi_value \<Rightarrow> state \<Rightarrow> napi_status \<times> napi_valuetype \<times> state" where
  "napi_typeof env v h =
     (let h1 = called (Abi_typeof v) h in
      case cell (heap h1) v of
        None \<Rightarrow> (napi_invalid_arg, napi_undefined, failed napi_invalid_arg h1)
      | Some jv \<Rightarrow> (napi_ok, type_of_cell jv, h1))"

section \<open>Env and Error\<close>

definition IsExceptionPending :: "napi_env \<Rightarrow> state \<Rightarrow> bool \<times> state" where
  "IsExceptionPending env h =
     (case napi_is_exception_pending env h of
        (status, result, h1) \<Rightarrow> (if status \<noteq> napi_ok then False else result, h1))"

text \<open>
  \<^verbatim>\<open>Error::New(env)\<close>. The two \<^verbatim>\<open>assert\<close>s are compiled out; the guard
  \<^verbatim>\<open>if (status == napi_ok)\<close> that follows the first one is kept. \<open>error\<close> starts as
  \<open>nullptr\<close> and an entry point that fails leaves it so. \<^verbatim>\<open>info\<close> is the pointer to the
  last-error record, obtained after \<^verbatim>\<open>napi_is_exception_pending\<close> has run:
  \<^verbatim>\<open>info->error_message\<close> is read right away, \<^verbatim>\<open>info->error_code\<close> in the \<^verbatim>\<open>switch\<close>, after
  \<^verbatim>\<open>napi_create_string_utf8\<close>.
\<close>

definition Error_New :: "napi_env \<Rightarrow> state \<Rightarrow> Error \<times> state" where
  "Error_New env h =
     (case IsExceptionPending env h of (isPending, h1) \<Rightarrow>
        if isPending then
          (case napi_get_and_clear_last_exception env h1 of
             (status, error, h2) \<Rightarrow> (\<lparr>err_env = env, err_value = error\<rparr>, h2))
        else
          (let h2 = napi_get_last_error_info h1;
               msg = (case error_message (last_error h2) of
                        Some m \<Rightarrow> m
                      | None \<Rightarrow> ''Error in native callback'') in
           case napi_create_string_utf8 env msg h2 of (status, message, h3) \<Rightarrow>
             if status = napi_ok then
               (case
                  (if error_code (last_error h3) = napi_object_expected
                      \<or> error_code (last_error h3) = napi_string_expected
                      \<or> error_code (last_error h3) = napi_boolean_expected
                      \<or> error_code (last_error h3) = napi_number_expected
                   then napi_create_type_error env message h3
                   else napi_create_error env message h3)
                of (status', error, h4) \<Rightarrow> (\<lparr>err_env = env, err_value = error\<rparr>, h4))
             else (\<lparr>err_env = env, err_value = nullptr\<rparr>, h3)))"

text \<open>\<^verbatim>\<open>throw Error::New(env)\<close>, the statement after every failed entry point.\<close>

definition throw_Error_New :: "napi_env \<Rightarrow> state \<Rightarrow> (abort + 'a) \<times> state" where
  "throw_Error_New env h = (case Error_New env h of (e, h1) \<Rightarrow> (Inl (Throw e), h1))"

definition ThrowAsJavaScriptException :: "Error \<Rightarrow> state \<Rightarrow> state" where
  "ThrowAsJavaScriptException e h =
     (if err_value e \<noteq> nullptr
      then (case napi_throw (err_env e) (err_value e) h of (status, h1) \<Rightarrow> h1)
      else h)"

definition Env_Global :: "napi_env \<Rightarrow> state \<Rightarrow> (abort + Value) \<times> state" where
  "Env_Global env h =
     (case napi_get_global env h of (status, value, h1) \<Rightarrow>
        if status \<noteq> napi_ok then throw_Error_New env h1
        else (Inr \<lparr>val_env = env, val_value = value\<rparr>, h1))"

definition Env_Undefined :: "napi_env \<Rightarrow> state \<Rightarrow> (abort + Value) \<times> state" where
  "Env_Undefined env h =
     (case napi_get_undefined env h of (status, value, h1) \<Rightarrow>
        if status \<noteq> napi_ok then throw_Error_New env h1
        else (Inr \<lparr>val_env = env, val_value = value\<rparr>, h1))"

definition Value_Type :: "Value \<Rightarrow> state \<Rightarrow> (abort + napi_valuetype) \<times> state" where
  "Value_Type v h =
     (if val_value v = nullptr then (Inr napi_undefined, h)
      else (case napi_typeof (val_env v) (val_value v) h of (status, type, h1) \<Rightarrow>
              if status \<noteq> napi_ok then throw_Error_New (val_env v) h1
              else (Inr type, h1)))"

definition IsUndefined :: "Value \<Rightarrow> state \<Rightarrow> (abort + bool) \<times> state" where
  "IsUndefined v h =
     (case Value_Type v h of
        (Inl a, h1) \<Rightarrow> (Inl a, h1)
      | (Inr t, h1) \<Rightarrow> (Inr (t = napi_undefined), h1))"

section \<open>The host interface: roots, frames, wrapping, scopes, calls\<close>

definition napi_create_reference ::
  "napi_env \<Rightarrow> napi_value \<Rightarrow> int \<Rightarrow> state \<Rightarrow> napi_status \<times> napi_ref \<times> state" where
  "napi_create_reference env v initial_refcount h =
     (let h1 = called (Abi_create_reference v initial_refcount) h in
      if cell (heap h1) v = None
      then (napi_invalid_arg, nullptr, failed napi_invalid_arg h1)
      else (case store (refs h1) (v, initial_refcount) of
              (r, rs) \<Rightarrow> (napi_ok, r, h1\<lparr>refs := rs\<rparr>)))"

definition napi_delete_reference :: "napi_env \<Rightarrow> napi_ref \<Rightarrow> state \<Rightarrow> napi_status \<times> state" where
  "napi_delete_reference env r h =
     (let h1 = called (Abi_delete_reference r) h in
      if cell (refs h1) r = None then (napi_invalid_arg, failed napi_invalid_arg h1)
      else (napi_ok, h1\<lparr>refs := release (refs h1) r\<rparr>))"

text \<open>For a root whose referent was collected the interface reports success and a null value.\<close>

definition napi_get_reference_value ::
  "napi_env \<Rightarrow> napi_ref \<Rightarrow> state \<Rightarrow> napi_status \<times> napi_value \<times> state" where
  "napi_get_reference_value env r h =
     (let h1 = called (Abi_get_reference_value r) h in
      case cell (refs h1) r of
        None \<Rightarrow> (napi_invalid_arg, nullptr, failed napi_invalid_arg h1)
      | Some (v, c) \<Rightarrow> (napi_ok, v, h1))"

definition napi_reference_ref ::
  "napi_env \<Rightarrow> napi_ref \<Rightarrow> state \<Rightarrow> napi_status \<times> int \<times> state" where
  "napi_reference_ref env r h =
     (let h1 = called (Abi_reference_ref r) h in
      case cell (refs h1) r of
        None \<Rightarrow> (napi_invalid_arg, 0, failed napi_invalid_arg h1)
      | Some (v, c) \<Rightarrow> (napi_ok, c + 1, h1\<lparr>refs := assign (refs h1) r (v, c + 1)\<rparr>))"

definition napi_reference_unref ::
  "napi_env \<Rightarrow> napi_ref \<Rightarrow> state \<Rightarrow> napi_status \<times> int \<times> state" where
  "napi_reference_unref env r h =
     (let h1 = called (Abi_reference_unref r) h in
      case cell (refs h1) r of
        None \<Rightarrow> (napi_invalid_arg, 0, failed napi_invalid_arg h1)
      | Some (v, c) \<Rightarrow>
          if c = 0 then (napi_generic_failure, 0, failed napi_generic_failure h1)
          else (napi_ok, c - 1, h1\<lparr>refs := assign (refs h1) r (v, c - 1)\<rparr>))"

definition napi_get_cb_this ::
  "napi_env \<Rightarrow> frame \<Rightarrow> state \<Rightarrow> napi_status \<times> napi_value \<times> state" where
  "napi_get_cb_this env fr h = (napi_ok, cb_this fr, called Abi_get_cb_this h)"

definition napi_get_cb_args_length ::
  "napi_env \<Rightarrow> frame \<Rightarrow> state \<Rightarrow> napi_status \<times> int \<times> state" where
  "napi_get_cb_args_length env fr h =
     (napi_ok, int (length (cb_args fr)), called Abi_get_cb_args_length h)"

text \<open>
  The buffer after the call, as far as it was written: the first \<open>bufferlength\<close>
  arguments of the frame.
\<close>

definition napi_get_cb_args ::
  "napi_env \<Rightarrow> frame \<Rightarrow> nat \<Rightarrow> state \<Rightarrow> napi_status \<times> napi_value list \<times> state" where
  "napi_get_cb_args env fr bufferlength h =
     (napi_ok, take bufferlength (cb_args fr), called (Abi_get_cb_args bufferlength) h)"

definition napi_get_cb_data ::
  "napi_env \<Rightarrow> frame \<Rightarrow> state \<Rightarrow> napi_status \<times> native_ptr \<times> state" where
  "napi_get_cb_data env fr h = (napi_ok, cb_data fr, called Abi_get_cb_data h)"

definition napi_is_construct_call ::
  "napi_env \<Rightarrow> frame \<Rightarrow> state \<Rightarrow> napi_status \<times> bool \<times> state" where
  "napi_is_construct_call env fr h = (napi_ok, cb_construct fr, called Abi_is_construct_call h)"

definition napi_set_return_value ::
  "napi_env \<Rightarrow> frame \<Rightarrow> napi_value \<Rightarrow> state \<Rightarrow> napi_status \<times> state" where
  "napi_set_return_value env fr v h =
     (napi_ok, (called (Abi_set_return_value v) h)\<lparr>return_slot := Some v\<rparr>)"

text \<open>
  \<^verbatim>\<open>napi_wrap\<close> attaches a native pointer to an object that has none and returns a weak
  root of the object; \<^verbatim>\<open>napi_unwrap\<close> reads the pointer back.
\<close>

definition napi_wrap ::
  "napi_env \<Rightarrow> napi_value \<Rightarrow> native_ptr \<Rightarrow> state \<Rightarrow> napi_status \<times> napi_ref \<times> state" where
  "napi_wrap env obj native_object h =
     (let h1 = called (Abi_wrap obj native_object) h in
      case cell (heap h1) obj of
        Some (JObject q) \<Rightarrow>
          if q \<noteq> nullptr then (napi_invalid_arg, nullptr, failed napi_invalid_arg h1)
          else (case store (refs h1) (obj, 0) of
                  (r, rs) \<Rightarrow>
                    (napi_ok, r,
                     h1\<lparr>heap := assign (heap h1) obj (JObject native_object), refs := rs\<rparr>))
      | _ \<Rightarrow> (napi_object_expected, nullptr, failed napi_object_expected h1))"

definition napi_unwrap ::
  "napi_env \<Rightarrow> napi_value \<Rightarrow> state \<Rightarrow> napi_status \<times> native_ptr \<times> state" where
  "napi_unwrap env obj h =
     (let h1 = called (Abi_unwrap obj) h in
      case cell (heap h1) obj of
        Some (JObject q) \<Rightarrow>
          if q = nullptr then (napi_invalid_arg, nullptr, failed napi_invalid_arg h1)
          else (napi_ok, q, h1)
      | _ \<Rightarrow> (napi_object_expected, nullptr, failed napi_object_expected h1))"

definition napi_create_function ::
  "napi_env \<Rightarrow> string \<Rightarrow> native_entry \<Rightarrow> native_ptr \<Rightarrow> state
     \<Rightarrow> napi_status \<times> napi_value \<times> state" where
  "napi_create_function env utf8name cb data h =
     (case alloc_value (JNativeFunction cb data) (called (Abi_create_function data) h) of
        (v, h1) \<Rightarrow> (napi_ok, v, h1))"

definition napi_open_handle_scope :: "napi_env \<Rightarrow> state \<Rightarrow> napi_status \<times> nat \<times> state" where
  "napi_open_handle_scope env h =
     (napi_ok, Suc (scopes h), (called Abi_open_handle_scope h)\<lparr>scopes := Suc (scopes h)\<rparr>)"

definition napi_close_handle_scope :: "napi_env \<Rightarrow> nat \<Rightarrow> state \<Rightarrow> napi_status \<times> state" where
  "napi_close_handle_scope env scope h =
     (let h1 = called Abi_close_handle_scope h in
      if scope \<noteq> scopes h1 \<or> scope = 0 then (napi_invalid_arg, failed napi_invalid_arg h1)
      else (napi_ok, h1\<lparr>scopes := scopes h1 - 1\<rparr>))"

definition napi_open_escapable_handle_scope ::
  "napi_env \<Rightarrow> state \<Rightarrow> napi_status \<times> nat \<times> state" where
  "napi_open_escapable_handle_scope env h =
     (napi_ok, Suc (scopes h),
      (called Abi_open_escapable_handle_scope h)\<lparr>scopes := Suc (scopes h)\<rparr>)"

definition napi_close_escapable_handle_scope ::
  "napi_env \<Rightarrow> nat \<Rightarrow> state \<Rightarrow> napi_status \<times> state" where
  "napi_close_escapable_handle_scope env scope h =
     (let h1 = called Abi_close_escapable_handle_scope h in
      if scope \<noteq> scopes h1 \<or> scope = 0 then (napi_invalid_arg, failed napi_invalid_arg h1)
      else (napi_ok, h1\<lparr>scopes := scopes h1 - 1\<rparr>))"

definition napi_escape_handle ::
  "napi_env \<Rightarrow> nat \<Rightarrow> napi_value \<Rightarrow> state \<Rightarrow> napi_status \<times> napi_value \<times> state" where
  "napi_escape_handle env scope escapee h =
     (napi_ok, escapee, called (Abi_escape_handle escapee) h)"

text \<open>
  The host runs a script function and reports what it did; a throwing function leaves
  its exception pending. A native function as callee is not re-entered by this model
  and is reported as a generic failure.
\<close>

definition napi_make_callback ::
  "napi_env \<Rightarrow> napi_value \<Rightarrow> napi_value \<Rightarrow> napi_value list \<Rightarrow> state
     \<Rightarrow> napi_status \<times> napi_value \<times> state" where
  "napi_make_callback env recv func args h =
     (let h1 = called (Abi_make_callback recv func args) h in
      case cell (heap h1) func of
        Some (JFunction (Returns v)) \<Rightarrow> (napi_ok, v, h1)
      | Some (JFunction (Throws e)) \<Rightarrow>
          (napi_pending_exception, nullptr,
           failed napi_pending_exception (h1\<lparr>pending := Some e\<rparr>))
      | Some (JNativeFunction t p) \<Rightarrow>
          (napi_generic_failure, nullptr, failed napi_generic_failure h1)
      | _ \<Rightarrow> (napi_function_expected, nullptr, failed napi_function_expected h1))"

section \<open>Reference\<close>

text \<open>
  \<^verbatim>\<open>Reference()\<close> initialises all three members. \<^verbatim>\<open>Reference(env, persistent)\<close> and the
  move constructor leave \<^verbatim>\<open>_suppressDestruct\<close> out of their initialisation: the member
  holds an indeterminate value, which the model takes as the parameter \<open>indet\<close>.
\<close>

definition Reference_default :: Reference where
  "Reference_default =
     \<lparr>ref_env = nullptr, ref_ref = nullptr, ref_suppressDestruct = False\<rparr>"

definition Reference_ctor :: "bool \<Rightarrow> napi_env \<Rightarrow> napi_ref \<Rightarrow> Reference" where
  "Reference_ctor indet env persistent =
     \<lparr>ref_env = env, ref_ref = persistent, ref_suppressDestruct = indet\<rparr>"

definition Reference_New ::
  "bool \<Rightarrow> Value \<Rightarrow> int \<Rightarrow> state \<Rightarrow> (abort + Reference) \<times> state" where
  "Reference_New indet value initialRefcount h =
     (let env = val_env value; val = val_value value in
      if val = nullptr then (Inr (Reference_ctor indet env nullptr), h)
      else (case napi_create_reference env val initialRefcount h of
              (status, ref, h1) \<Rightarrow>
                if status \<noteq> napi_ok then throw_Error_New env h1
                else (Inr (Reference_ctor indet env ref), h1)))"

text \<open>The destructor; the object is gone afterwards, the state is what remains.\<close>

definition Reference_dtor :: "Reference \<Rightarrow> state \<Rightarrow> state" where
  "Reference_dtor r h =
     (if ref_ref r \<noteq> nullptr then
        (if \<not> ref_suppressDestruct r
         then (case napi_delete_reference (ref_env r) (ref_ref r) h of (status, h1) \<Rightarrow> h1)
         else h)
      else h)"

text \<open>Move construction and move assignment return the target and the source after the move.\<close>

definition Reference_move_ctor :: "bool \<Rightarrow> Reference \<Rightarrow> Reference \<times> Reference" where
  "Reference_move_ctor indet other =
     (\<lparr>ref_env = ref_env other, ref_ref = ref_ref other, ref_suppressDestruct = indet\<rparr>,
      other\<lparr>ref_env := nullptr, ref_ref := nullptr\<rparr>)"

definition Reference_move_assign :: "Reference \<Rightarrow> Reference \<Rightarrow> Reference \<times> Reference" where
  "Reference_move_assign this other =
     (this\<lparr>ref_env := ref_env other, ref_ref := ref_ref other\<rparr>,
      other\<lparr>ref_env := nullptr, ref_ref := nullptr\<rparr>)"

definition IsEmpty :: "Reference \<Rightarrow> bool" where
  "IsEmpty r = (ref_ref r = nullptr)"

definition Reference_Value :: "Reference \<Rightarrow> state \<Rightarrow> (abort + Value) \<times> state" where
  "Reference_Value r h =
     (if ref_ref r = nullptr then (Inr \<lparr>val_env = ref_env r, val_value = nullptr\<rparr>, h)
      else (case napi_get_reference_value (ref_env r) (ref_ref r) h of
              (status, value, h1) \<Rightarrow>
                if status \<noteq> napi_ok then throw_Error_New (ref_env r) h1
                else (Inr \<lparr>val_env = ref_env r, val_value = value\<rparr>, h1)))"

definition Ref :: "Reference \<Rightarrow> state \<Rightarrow> (abort + int) \<times> state" where
  "Ref r h =
     (case napi_reference_ref (ref_env r) (ref_ref r) h of
        (status, result, h1) \<Rightarrow>
          if status \<noteq> napi_ok then throw_Error_New (ref_env r) h1 else (Inr result, h1))"

definition Unref :: "Reference \<Rightarrow> state \<Rightarrow> (abort + int) \<times> state" where
  "Unref r h =
     (case napi_reference_unref (ref_env r) (ref_ref r) h of
        (status, result, h1) \<Rightarrow>
          if status \<noteq> napi_ok then throw_Error_New (ref_env r) h1 else (Inr result, h1))"

text \<open>
  The two \<^verbatim>\<open>Reset\<close> overloads change the reference in place; they return the outcome, the
  reference as the call leaves it (also when it throws) and the state.
\<close>

definition Reset :: "Reference \<Rightarrow> state \<Rightarrow> (abort + unit) \<times> Reference \<times> state" where
  "Reset r h =
     (if ref_ref r \<noteq> nullptr then
        (case napi_delete_reference (ref_env r) (ref_ref r) h of
           (status, h1) \<Rightarrow>
             if status \<noteq> napi_ok
             then (case throw_Error_New (ref_env r) h1 of (x, h2) \<Rightarrow> (x, r, h2))
             else (Inr (), r\<lparr>ref_ref := nullptr\<rparr>, h1))
      else (Inr (), r, h))"

definition Reset_value ::
  "Reference \<Rightarrow> Value \<Rightarrow> int \<Rightarrow> state \<Rightarrow> (abort + unit) \<times> Reference \<times> state" where
  "Reset_value r value refcount h =
     (case Reset r h of
        (Inl a, r1, h1) \<Rightarrow> (Inl a, r1, h1)
      | (Inr u, r1, h1) \<Rightarrow>
          let r2 = r1\<lparr>ref_env := val_env value\<rparr>; val = val_value value in
          if val \<noteq> nullptr then
            (case napi_create_reference (ref_env r2) val refcount h1 of
               (status, ref, h2) \<Rightarrow>
                 if status \<noteq> napi_ok
                 then (case throw_Error_New (ref_env r2) h2 of (x, h3) \<Rightarrow> (x, r2, h3))
                 else (Inr (), r2\<lparr>ref_ref := ref\<rparr>, h2))
          else (Inr (), r2, h1))"

definition SuppressDestruct :: "Reference \<Rightarrow> Reference" where
  "SuppressDestruct r = r\<lparr>ref_suppressDestruct := True\<rparr>"

definition Weak :: "bool \<Rightarrow> Value \<Rightarrow> state \<Rightarrow> (abort + Reference) \<times> state" where
  "Weak indet value h = Reference_New indet value 0 h"

definition Persistent :: "bool \<Rightarrow> Value \<Rightarrow> state \<Rightarrow> (abort + Reference) \<times> state" where
  "Persistent indet value h = Reference_New indet value 1 h"

section \<open>CallbackInfo\<close>

text \<open>
  \<open>ci_argv\<close> is the argument array as far as the constructor filled it (nothing when
  \<^verbatim>\<open>_argc\<close> is 0, where the source leaves the pointer unset); \<open>ci_dynamicArgs\<close> tells
  whether the array was allocated on the heap. The threshold \<^verbatim>\<open>_staticArgCount\<close> is
  declared outside the file and is the parameter \<open>staticArgCount\<close>; \<^verbatim>\<open>_argc\<close> has the
  type that \<^verbatim>\<open>Length()\<close> returns, a signed \<^verbatim>\<open>int\<close>.
\<close>

record CallbackInfo =
  ci_env :: napi_env
  ci_this :: napi_value
  ci_argc :: int
  ci_argv :: "napi_value list"
  ci_dynamicArgs :: bool
  ci_data :: native_ptr

definition CallbackInfo_ctor ::
  "int \<Rightarrow> napi_env \<Rightarrow> frame \<Rightarrow> state \<Rightarrow> (abort + CallbackInfo) \<times> state" where
  "CallbackInfo_ctor staticArgCount env info h =
     (case napi_get_cb_this env info h of (status, this, h1) \<Rightarrow>
        if status \<noteq> napi_ok then throw_Error_New env h1
        else
     (case napi_get_cb_args_length env info h1 of (status, argc, h2) \<Rightarrow>
        if status \<noteq> napi_ok then throw_Error_New env h2
        else
     (case (if argc > 0
            then (case napi_get_cb_args env info (nat argc) h2 of
                    (status, argv, h3) \<Rightarrow> (status, argv, \<not> argc \<le> staticArgCount, h3))
            else (napi_ok, [], False, h2))
      of (status, argv, dynamicArgs, h3) \<Rightarrow>
        if status \<noteq> napi_ok then throw_Error_New env h3
        else
     (case napi_get_cb_data env info h3 of (status, data, h4) \<Rightarrow>
        if status \<noteq> napi_ok then throw_Error_New env h4
        else (Inr \<lparr>ci_env = env, ci_this = this, ci_argc = argc, ci_argv = argv,
                   ci_dynamicArgs = dynamicArgs, ci_data = data\<rparr>, h4)))))"

definition Length :: "CallbackInfo \<Rightarrow> int" where
  "Length info = ci_argc info"

text \<open>
  \<^verbatim>\<open>operator []\<close>. The index is a signed \<^verbatim>\<open>int\<close>; an index below the count is read from
  the array without a lower bound check, so a negative one reads before the array.
\<close>

definition CallbackInfo_index :: "CallbackInfo \<Rightarrow> int \<Rightarrow> state \<Rightarrow> (abort + Value) \<times> state" where
  "CallbackInfo_index info index h =
     (if index < ci_argc info then
        (if 0 \<le> index \<and> nat index < length (ci_argv info)
         then (Inr \<lparr>val_env = ci_env info, val_value = ci_argv info ! nat index\<rparr>, h)
         else (Inl UB, h))
      else Env_Undefined (ci_env info) h)"

definition This :: "CallbackInfo \<Rightarrow> state \<Rightarrow> (abort + Value) \<times> state" where
  "This info h =
     (if ci_this info = nullptr then Env_Global (ci_env info) h
      else (Inr \<lparr>val_env = ci_env info, val_value = ci_this info\<rparr>, h))"

definition Data :: "CallbackInfo \<Rightarrow> native_ptr" where
  "Data info = ci_data info"

definition SetData :: "CallbackInfo \<Rightarrow> native_ptr \<Rightarrow> CallbackInfo" where
  "SetData info data = info\<lparr>ci_data := data\<rparr>"

section \<open>Function\<close>

text \<open>
  User code is reached through function pointers; \<open>code\<close> maps a pointer to what the
  function behind it does. \<^verbatim>\<open>new CallbackData(cb, data)\<close> takes a fresh cell of the native
  heap; nothing in the file deletes it.
\<close>

type_synonym VoidFunctionCallback = "CallbackInfo \<Rightarrow> state \<Rightarrow> (abort + unit) \<times> state"
type_synonym FunctionCallback = "CallbackInfo \<Rightarrow> state \<Rightarrow> (abort + Value) \<times> state"
type_synonym SetterCallback = "CallbackInfo \<Rightarrow> Value \<Rightarrow> state \<Rightarrow> (abort + unit) \<times> state"
type_synonym ModuleRegisterCallback =
  "napi_env \<Rightarrow> Value \<Rightarrow> Value \<Rightarrow> state \<Rightarrow> (abort + unit) \<times> state"

definition new_CallbackData :: "CallbackData \<Rightarrow> state \<Rightarrow> native_ptr \<times> state" where
  "new_CallbackData cd h = (case store (cbdata h) cd of (p, cds) \<Rightarrow> (p, h\<lparr>cbdata := cds\<rparr>))"

definition Function_New_void ::
  "napi_env \<Rightarrow> fun_ptr \<Rightarrow> string \<Rightarrow> native_ptr \<Rightarrow> state \<Rightarrow> (abort + Value) \<times> state" where
  "Function_New_void env cb utf8name data h =
     (case new_CallbackData \<lparr>cd_callback = cb, cd_setter = nullptr, cd_data = data\<rparr> h of
        (callbackData, h1) \<Rightarrow>
     (case napi_create_function env utf8name VoidFunctionCallbackWrapper_entry callbackData h1 of
        (status, value, h2) \<Rightarrow>
          if status \<noteq> napi_ok then throw_Error_New env h2
          else (Inr \<lparr>val_env = env, val_value = value\<rparr>, h2)))"

definition Function_New ::
  "napi_env \<Rightarrow> fun_ptr \<Rightarrow> string \<Rightarrow> native_ptr \<Rightarrow> state \<Rightarrow> (abort + Value) \<times> state" where
  "Function_New env cb utf8name data h =
     (case new_CallbackData \<lparr>cd_callback = cb, cd_setter = nullptr, cd_data = data\<rparr> h of
        (callbackData, h1) \<Rightarrow>
     (case napi_create_function env utf8name FunctionCallbackWrapper_entry callbackData h1 of
        (status, value, h2) \<Rightarrow>
          if status \<noteq> napi_ok then throw_Error_New env h2
          else (Inr \<lparr>val_env = env, val_value = value\<rparr>, h2)))"

definition Function_MakeCallback ::
  "Value \<Rightarrow> napi_value \<Rightarrow> napi_value list \<Rightarrow> state \<Rightarrow> (abort + Value) \<times> state" where
  "Function_MakeCallback f recv args h =
     (case napi_make_callback (val_env f) recv (val_value f) args h of
        (status, result, h1) \<Rightarrow>
          if status \<noteq> napi_ok then throw_Error_New (val_env f) h1
          else (Inr \<lparr>val_env = val_env f, val_value = result\<rparr>, h1))"

section \<open>The catch block and the trampolines\<close>

text \<open>
  Every trampoline and \<^verbatim>\<open>RegisterModule\<close> close with the same handler:
  \<^verbatim>\<open>catch (const Error& e) { if (!Napi::Env(env).IsExceptionPending()) e.ThrowAsJavaScriptException(); }\<close>.
  Each trampoline is given as the body of its \<^verbatim>\<open>try\<close> block and the function around it.
  A trampoline returns nothing; its outcome is \<open>Inr ()\<close> unless undefined behaviour was met.
\<close>

definition catch_Error :: "napi_env \<Rightarrow> Error \<Rightarrow> state \<Rightarrow> state" where
  "catch_Error env e h =
     (case IsExceptionPending env h of
        (isPending, h1) \<Rightarrow> if \<not> isPending then ThrowAsJavaScriptException e h1 else h1)"

definition RegisterModule ::
  "napi_env \<Rightarrow> napi_value \<Rightarrow> napi_value \<Rightarrow> ModuleRegisterCallback \<Rightarrow> state
     \<Rightarrow> (abort + unit) \<times> state" where
  "RegisterModule env exports module registerCallback h =
     (case registerCallback env \<lparr>val_env = env, val_value = exports\<rparr>
             \<lparr>val_env = env, val_value = module\<rparr> h of
        (Inl (Throw e), h1) \<Rightarrow> (Inr (), catch_Error env e h1)
      | (Inl UB, h1) \<Rightarrow> (Inl UB, h1)
      | (Inr u, h1) \<Rightarrow> (Inr (), h1))"

definition VoidFunctionCallbackWrapper_try ::
  "(fun_ptr \<Rightarrow> VoidFunctionCallback) \<Rightarrow> int \<Rightarrow> napi_env \<Rightarrow> frame \<Rightarrow> state
     \<Rightarrow> (abort + unit) \<times> state" where
  "VoidFunctionCallbackWrapper_try code staticArgCount env info h =
     (case CallbackInfo_ctor staticArgCount env info h of
        (Inl a, h1) \<Rightarrow> (Inl a, h1)
      | (Inr callbackInfo, h1) \<Rightarrow>
          (case cell (cbdata h1) (Data callbackInfo) of
             None \<Rightarrow> (Inl UB, h1)
           | Some callbackData \<Rightarrow> code (cd_callback callbackData) callbackInfo h1))"

definition VoidFunctionCallbackWrapper ::
  "(fun_ptr \<Rightarrow> VoidFunctionCallback) \<Rightarrow> int \<Rightarrow> napi_env \<Rightarrow> frame \<Rightarrow> state
     \<Rightarrow> (abort + unit) \<times> state" where
  "VoidFunctionCallbackWrapper code staticArgCount env info h =
     (case VoidFunctionCallbackWrapper_try code staticArgCount env info h of
        (Inl (Throw e), h1) \<Rightarrow> (Inr (), catch_Error env e h1)
      | (Inl UB, h1) \<Rightarrow> (Inl UB, h1)
      | (Inr u, h1) \<Rightarrow> (Inr (), h1))"

definition FunctionCallbackWrapper_try ::
  "(fun_ptr \<Rightarrow> FunctionCallback) \<Rightarrow> int \<Rightarrow> napi_env \<Rightarrow> frame \<Rightarrow> state
     \<Rightarrow> (abort + napi_value) \<times> state" where
  "FunctionCallbackWrapper_try code staticArgCount env info h =
     (case CallbackInfo_ctor staticArgCount env info h of
        (Inl a, h1) \<Rightarrow> (Inl a, h1)
      | (Inr callbackInfo, h1) \<Rightarrow>
          (case cell (cbdata h1) (Data callbackInfo) of
             None \<Rightarrow> (Inl UB, h1)
           | Some callbackData \<Rightarrow>
               (case code (cd_callback callbackData) callbackInfo h1 of
                  (Inl a, h2) \<Rightarrow> (Inl a, h2)
                | (Inr v, h2) \<Rightarrow> (Inr (val_value v), h2))))"

definition FunctionCallbackWrapper ::
  "(fun_ptr \<Rightarrow> FunctionCallback) \<Rightarrow> int \<Rightarrow> napi_env \<Rightarrow> frame \<Rightarrow> state
     \<Rightarrow> (abort + unit) \<times> state" where
  "FunctionCallbackWrapper code staticArgCount env info h =
     (case FunctionCallbackWrapper_try code staticArgCount env info h of
        (Inl (Throw e), h1) \<Rightarrow> (Inr (), catch_Error env e h1)
      | (Inl UB, h1) \<Rightarrow> (Inl UB, h1)
      | (Inr result, h1) \<Rightarrow>
          (case napi_set_return_value env info result h1 of (status, h2) \<Rightarrow> (Inr (), h2)))"

section \<open>ObjectWrap\<close>

definition Unwrap :: "Value \<Rightarrow> state \<Rightarrow> (abort + native_ptr) \<times> state" where
  "Unwrap wrapper h =
     (case napi_unwrap (val_env wrapper) (val_value wrapper) h of
        (status, unwrapped, h1) \<Rightarrow>
          if status \<noteq> napi_ok then throw_Error_New (val_env wrapper) h1
          else (Inr unwrapped, h1))"

text \<open>
  \<^verbatim>\<open>new T(callbackInfo)\<close>: a fresh cell of the native heap holds the instance, whose
  \<^verbatim>\<open>Reference<Object>\<close> base is default-constructed by \<^verbatim>\<open>ObjectWrap()\<close>; then the user's
  constructor runs. If it throws, the destructor of the base runs on what the constructor
  left of it and the cell is given back.
\<close>

type_synonym Constructor = "native_ptr \<Rightarrow> CallbackInfo \<Rightarrow> state \<Rightarrow> (abort + unit) \<times> state"

definition new_T :: "Constructor \<Rightarrow> CallbackInfo \<Rightarrow> state \<Rightarrow> (abort + native_ptr) \<times> state" where
  "new_T ctor callbackInfo h =
     (case store (instances h) Reference_default of
        (p, is) \<Rightarrow>
          (case ctor p callbackInfo (h\<lparr>instances := is\<rparr>) of
             (Inl a, h1) \<Rightarrow>
               let h2 = (case cell (instances h1) p of
                           None \<Rightarrow> h1
                         | Some base \<Rightarrow> Reference_dtor base h1)
               in (Inl a, h2\<lparr>instances := release (instances h2) p\<rparr>)
           | (Inr u, h1) \<Rightarrow> (Inr p, h1)))"

definition ConstructorCallbackWrapper_try ::
  "Constructor \<Rightarrow> int \<Rightarrow> napi_env \<Rightarrow> frame \<Rightarrow> state
     \<Rightarrow> (abort + native_ptr \<times> napi_value) \<times> state" where
  "ConstructorCallbackWrapper_try ctor staticArgCount env info h =
     (case CallbackInfo_ctor staticArgCount env info h of
        (Inl a, h1) \<Rightarrow> (Inl a, h1)
      | (Inr callbackInfo, h1) \<Rightarrow>
          (case new_T ctor callbackInfo h1 of
             (Inl a, h2) \<Rightarrow> (Inl a, h2)
           | (Inr instance, h2) \<Rightarrow>
               (case This callbackInfo h2 of
                  (Inl a, h3) \<Rightarrow> (Inl a, h3)
                | (Inr wrapper, h3) \<Rightarrow> (Inr (instance, val_value wrapper), h3))))"

text \<open>
  After \<^verbatim>\<open>napi_wrap\<close> the temporary \<^verbatim>\<open>Reference<Object>(env, ref)\<close> is move-assigned to the
  instance's base and destroyed.
\<close>

definition ConstructorCallbackWrapper ::
  "Constructor \<Rightarrow> bool \<Rightarrow> int \<Rightarrow> napi_env \<Rightarrow> frame \<Rightarrow> state \<Rightarrow> (abort + unit) \<times> state" where
  "ConstructorCallbackWrapper ctor indet staticArgCount env info h =
     (case napi_is_construct_call env info h of
        (status, isConstructCall, h0) \<Rightarrow>
          if status \<noteq> napi_ok then (Inr (), h0)
          else if \<not> isConstructCall then
            (case napi_throw_type_error env
                    (''Class constructors cannot be invoked without '' @ [CHR 0x27]
                       @ ''new'' @ [CHR 0x27]) h0 of
               (status, h1) \<Rightarrow> (Inr (), h1))
          else
            (case ConstructorCallbackWrapper_try ctor staticArgCount env info h0 of
               (Inl (Throw e), h1) \<Rightarrow> (Inr (), catch_Error env e h1)
             | (Inl UB, h1) \<Rightarrow> (Inl UB, h1)
             | (Inr (instance, wrapper), h1) \<Rightarrow>
                 (case napi_wrap env wrapper instance h1 of
                    (status, ref, h2) \<Rightarrow>
                      if status \<noteq> napi_ok then (Inr (), h2)
                      else
                        (case cell (instances h2) instance of
                           None \<Rightarrow> (Inl UB, h2)
                         | Some instanceRef \<Rightarrow>
                             (case Reference_move_assign instanceRef
                                     (Reference_ctor indet env ref) of
                                (instanceRef', temporary) \<Rightarrow>
                                  let h3 = Reference_dtor temporary
                                             (h2\<lparr>instances :=
                                                   assign (instances h2) instance instanceRef'\<rparr>)
                                  in (case napi_set_return_value env info wrapper h3 of
                                        (status, h4) \<Rightarrow> (Inr (), h4)))))))"

text \<open>
  The static trampolines hand the registration's own data to the callback with
  \<^verbatim>\<open>SetData\<close>; the instance trampolines also unwrap the receiver.
\<close>

definition StaticVoidMethodCallbackWrapper_try ::
  "(fun_ptr \<Rightarrow> VoidFunctionCallback) \<Rightarrow> int \<Rightarrow> napi_env \<Rightarrow> frame \<Rightarrow> state
     \<Rightarrow> (abort + unit) \<times> state" where
  "StaticVoidMethodCallbackWrapper_try code staticArgCount env info h =
     (case CallbackInfo_ctor staticArgCount env info h of
        (Inl a, h1) \<Rightarrow> (Inl a, h1)
      | (Inr callbackInfo, h1) \<Rightarrow>
          (case cell (cbdata h1) (Data callbackInfo) of
             None \<Rightarrow> (Inl UB, h1)
           | Some callbackData \<Rightarrow>
               code (cd_callback callbackData)
                 (SetData callbackInfo (cd_data callbackData)) h1))"

definition StaticVoidMethodCallbackWrapper ::
  "(fun_ptr \<Rightarrow> VoidFunctionCallback) \<Rightarrow> int \<Rightarrow> napi_env \<Rightarrow> frame \<Rightarrow> state
     \<Rightarrow> (abort + unit) \<times> state" where
  "StaticVoidMethodCallbackWrapper code staticArgCount env info h =
     (case StaticVoidMethodCallbackWrapper_try code staticArgCount env info h of
        (Inl (Throw e), h1) \<Rightarrow> (Inr (), catch_Error env e h1)
      | (Inl UB, h1) \<Rightarrow> (Inl UB, h1)
      | (Inr u, h1) \<Rightarrow> (Inr (), h1))"

definition StaticMethodCallbackWrapper_try ::
  "(fun_ptr \<Rightarrow> FunctionCallback) \<Rightarrow> int \<Rightarrow> napi_env \<Rightarrow> frame \<Rightarrow> state
     \<Rightarrow> (abort + napi_value) \<times> state" where
  "StaticMethodCallbackWrapper_try code staticArgCount env info h =
     (case CallbackInfo_ctor staticArgCount env info h of
        (Inl a, h1) \<Rightarrow> (Inl a, h1)
      | (Inr callbackInfo, h1) \<Rightarrow>
          (case cell (cbdata h1) (Data callbackInfo) of
             None \<Rightarrow> (Inl UB, h1)
           | Some callbackData \<Rightarrow>
               (case code (cd_callback callbackData)
                       (SetData callbackInfo (cd_data callbackData)) h1 of
                  (Inl a, h2) \<Rightarrow> (Inl a, h2)
                | (Inr v, h2) \<Rightarrow> (Inr (val_value v), h2))))"

definition StaticMethodCallbackWrapper ::
  "(fun_ptr \<Rightarrow> FunctionCallback) \<Rightarrow> int \<Rightarrow> napi_env \<Rightarrow> frame \<Rightarrow> state
     \<Rightarrow> (abort + unit) \<times> state" where
  "StaticMethodCallbackWrapper code staticArgCount env info h =
     (case StaticMethodCallbackWrapper_try code staticArgCount env info h of
        (Inl (Throw e), h1) \<Rightarrow> (Inr (), catch_Error env e h1)
      | (Inl UB, h1) \<Rightarrow> (Inl UB, h1)
      | (Inr result, h1) \<Rightarrow>
          (case napi_set_return_value env info result h1 of (status, h2) \<Rightarrow> (Inr (), h2)))"

text \<open>The static getter trampoline has the text of the static method trampoline.\<close>

definition StaticGetterCallbackWrapper ::
  "(fun_ptr \<Rightarrow> FunctionCallback) \<Rightarrow> int \<Rightarrow> napi_env \<Rightarrow> frame \<Rightarrow> state
     \<Rightarrow> (abort + unit) \<times> state" where
  "StaticGetterCallbackWrapper code staticArgCount env info h =
     (case StaticMethodCallbackWrapper_try code staticArgCount env info h of
        (Inl (Throw e), h1) \<Rightarrow> (Inr (), catch_Error env e h1)
      | (Inl UB, h1) \<Rightarrow> (Inl UB, h1)
      | (Inr result, h1) \<Rightarrow>
          (case napi_set_return_value env info result h1 of (status, h2) \<Rightarrow> (Inr (), h2)))"

definition StaticSetterCallbackWrapper_try ::
  "(fun_ptr \<Rightarrow> SetterCallback) \<Rightarrow> int \<Rightarrow> napi_env \<Rightarrow> frame \<Rightarrow> state
     \<Rightarrow> (abort + unit) \<times> state" where
  "StaticSetterCallbackWrapper_try code staticArgCount env info h =
     (case CallbackInfo_ctor staticArgCount env info h of
        (Inl a, h1) \<Rightarrow> (Inl a, h1)
      | (Inr callbackInfo0, h1) \<Rightarrow>
          (case cell (cbdata h1) (Data callbackInfo0) of
             None \<Rightarrow> (Inl UB, h1)
           | Some callbackData \<Rightarrow>
               let callbackInfo = SetData callbackInfo0 (cd_data callbackData) in
               (case CallbackInfo_index callbackInfo 0 h1 of
                  (Inl a, h2) \<Rightarrow> (Inl a, h2)
                | (Inr arg0, h2) \<Rightarrow> code (cd_setter callbackData) callbackInfo arg0 h2)))"

definition StaticSetterCallbackWrapper ::
  "(fun_ptr \<Rightarrow> SetterCallback) \<Rightarrow> int \<Rightarrow> napi_env \<Rightarrow> frame \<Rightarrow> state
     \<Rightarrow> (abort + unit) \<times> state" where
  "StaticSetterCallbackWrapper code staticArgCount env info h =
     (case StaticSetterCallbackWrapper_try code staticArgCount env info h of
        (Inl (Throw e), h1) \<Rightarrow> (Inr (), catch_Error env e h1)
      | (Inl UB, h1) \<Rightarrow> (Inl UB, h1)
      | (Inr u, h1) \<Rightarrow> (Inr (), h1))"

text \<open>
  The beginning shared by the four instance trampolines: the call context, the
  registration data, \<^verbatim>\<open>SetData\<close> and \<^verbatim>\<open>Unwrap(callbackInfo.This())\<close>.
\<close>

definition instance_prologue ::
  "int \<Rightarrow> napi_env \<Rightarrow> frame \<Rightarrow> state
     \<Rightarrow> (abort + CallbackInfo \<times> CallbackData \<times> native_ptr) \<times> state" where
  "instance_prologue staticArgCount env info h =
     (case CallbackInfo_ctor staticArgCount env info h of
        (Inl a, h1) \<Rightarrow> (Inl a, h1)
      | (Inr callbackInfo0, h1) \<Rightarrow>
          (case cell (cbdata h1) (Data callbackInfo0) of
             None \<Rightarrow> (Inl UB, h1)
           | Some callbackData \<Rightarrow>
               let callbackInfo = SetData callbackInfo0 (cd_data callbackData) in
               (case This callbackInfo h1 of
                  (Inl a, h2) \<Rightarrow> (Inl a, h2)
                | (Inr this, h2) \<Rightarrow>
                    (case Unwrap this h2 of
                       (Inl a, h3) \<Rightarrow> (Inl a, h3)
                     | (Inr instance, h3) \<Rightarrow>
                         (Inr (callbackInfo, callbackData, instance), h3)))))"

definition InstanceVoidMethodCallbackWrapper_try ::
  "(fun_ptr \<Rightarrow> native_ptr \<Rightarrow> VoidFunctionCallback) \<Rightarrow> int \<Rightarrow> napi_env \<Rightarrow> frame \<Rightarrow> state
     \<Rightarrow> (abort + unit) \<times> state" where
  "InstanceVoidMethodCallbackWrapper_try code staticArgCount env info h =
     (case instance_prologue staticArgCount env info h of
        (Inl a, h1) \<Rightarrow> (Inl a, h1)
      | (Inr (callbackInfo, callbackData, instance), h1) \<Rightarrow>
          code (cd_callback callbackData) instance callbackInfo h1)"

definition InstanceVoidMethodCallbackWrapper ::
  "(fun_ptr \<Rightarrow> native_ptr \<Rightarrow> VoidFunctionCallback) \<Rightarrow> int \<Rightarrow> napi_env \<Rightarrow> frame \<Rightarrow> state
     \<Rightarrow> (abort + unit) \<times> state" where
  "InstanceVoidMethodCallbackWrapper code staticArgCount env info h =
     (case InstanceVoidMethodCallbackWrapper_try code staticArgCount env info h of
        (Inl (Throw e), h1) \<Rightarrow> (Inr (), catch_Error env e h1)
      | (Inl UB, h1) \<Rightarrow> (Inl UB, h1)
      | (Inr u, h1) \<Rightarrow> (Inr (), h1))"

definition InstanceMethodCallbackWrapper_try ::
  "(fun_ptr \<Rightarrow> native_ptr \<Rightarrow> FunctionCallback) \<Rightarrow> int \<Rightarrow> napi_env \<Rightarrow> frame \<Rightarrow> state
     \<Rightarrow> (abort + napi_value) \<times> state" where
  "InstanceMethodCallbackWrapper_try code staticArgCount env info h =
     (case instance_prologue staticArgCount env info h of
        (Inl a, h1) \<Rightarrow> (Inl a, h1)
      | (Inr (callbackInfo, callbackData, instance), h1) \<Rightarrow>
          (case code (cd_callback callbackData) instance callbackInfo h1 of
             (Inl a, h2) \<Rightarrow> (Inl a, h2)
           | (Inr v, h2) \<Rightarrow> (Inr (val_value v), h2)))"

definition InstanceMethodCallbackWrapper ::
  "(fun_ptr \<Rightarrow> native_ptr \<Rightarrow> FunctionCallback) \<Rightarrow> int \<Rightarrow> napi_env \<Rightarrow> frame \<Rightarrow> state
     \<Rightarrow> (abort + unit) \<times> state" where
  "InstanceMethodCallbackWrapper code staticArgCount env info h =
     (case InstanceMethodCallbackWrapper_try code staticArgCount env info h of
        (Inl (Throw e), h1) \<Rightarrow> (Inr (), catch_Error env e h1)
      | (Inl UB, h1) \<Rightarrow> (Inl UB, h1)
      | (Inr result, h1) \<Rightarrow>
          (case napi_set_return_value env info result h1 of (status, h2) \<Rightarrow> (Inr (), h2)))"

text \<open>The instance getter trampoline has the text of the instance method trampoline.\<close>

definition InstanceGetterCallbackWrapper ::
  "(fun_ptr \<Rightarrow> native_ptr \<Rightarrow> FunctionCallback) \<Rightarrow> int \<Rightarrow> napi_env \<Rightarrow> frame \<Rightarrow> state
     \<Rightarrow> (abort + unit) \<times> state" where
  "InstanceGetterCallbackWrapper code staticArgCount env info h =
     (case InstanceMethodCallbackWrapper_try code staticArgCount env info h of
        (Inl (Throw e), h1) \<Rightarrow> (Inr (), catch_Error env e h1)
      | (Inl UB, h1) \<Rightarrow> (Inl UB, h1)
      | (Inr result, h1) \<Rightarrow>
          (case napi_set_return_value env info result h1 of (status, h2) \<Rightarrow> (Inr (), h2)))"

definition InstanceSetterCallbackWrapper_try ::
  "(fun_ptr \<Rightarrow> native_ptr \<Rightarrow> SetterCallback) \<Rightarrow> int \<Rightarrow> napi_env \<Rightarrow> frame \<Rightarrow> state
     \<Rightarrow> (abort + unit) \<times> state" where
  "InstanceSetterCallbackWrapper_try code staticArgCount env info h =
     (case instance_prologue staticArgCount env info h of
        (Inl a, h1) \<Rightarrow> (Inl a, h1)
      | (Inr (callbackInfo, callbackData, instance), h1) \<Rightarrow>
          (case CallbackInfo_index callbackInfo 0 h1 of
             (Inl a, h2) \<Rightarrow> (Inl a, h2)
           | (Inr arg0, h2) \<Rightarrow> code (cd_setter callbackData) instance callbackInfo arg0 h2))"

definition InstanceSetterCallbackWrapper ::
  "(fun_ptr \<Rightarrow> native_ptr \<Rightarrow> SetterCallback) \<Rightarrow> int \<Rightarrow> napi_env \<Rightarrow> frame \<Rightarrow> state
     \<Rightarrow> (abort + unit) \<times> state" where
  "InstanceSetterCallbackWrapper code staticArgCount env info h =
     (case InstanceSetterCallbackWrapper_try code staticArgCount env info h of
        (Inl (Throw e), h1) \<Rightarrow> (Inr (), catch_Error env e h1)
      | (Inl UB, h1) \<Rightarrow> (Inl UB, h1)
      | (Inr u, h1) \<Rightarrow> (Inr (), h1))"

text \<open>\<^verbatim>\<open>delete instance\<close>: the destructor of the \<^verbatim>\<open>Reference<Object>\<close> base, then the cell.\<close>

definition FinalizeCallback :: "native_ptr \<Rightarrow> state \<Rightarrow> (abort + unit) \<times> state" where
  "FinalizeCallback data h =
     (case cell (instances h) data of
        None \<Rightarrow> (Inl UB, h)
      | Some instance \<Rightarrow>
          let h1 = Reference_dtor instance h
          in (Inr (), h1\<lparr>instances := release (instances h1) data\<rparr>))"

section \<open>Class registration\<close>

record napi_property_descriptor =
  desc_utf8name :: string
  desc_method :: "native_entry option"
  desc_getter :: "native_entry option"
  desc_setter :: "native_entry option"
  desc_value :: napi_value
  desc_attributes :: nat
  desc_data :: native_ptr

definition empty_descriptor :: napi_property_descriptor where
  "empty_descriptor =
     \<lparr>desc_utf8name = [], desc_method = None, desc_getter = None, desc_setter = None,
      desc_value = nullptr, desc_attributes = 0, desc_data = nullptr\<rparr>"

definition InstanceMethod_void ::
  "string \<Rightarrow> fun_ptr \<Rightarrow> nat \<Rightarrow> native_ptr \<Rightarrow> state \<Rightarrow> napi_property_descriptor \<times> state" where
  "InstanceMethod_void utf8name method attributes data h =
     (case new_CallbackData \<lparr>cd_callback = method, cd_setter = nullptr, cd_data = data\<rparr> h of
        (callbackData, h1) \<Rightarrow>
          (empty_descriptor
             \<lparr>desc_utf8name := utf8name,
              desc_method := Some InstanceVoidMethodCallbackWrapper_entry,
              desc_data := callbackData,
              desc_attributes := attributes\<rparr>, h1))"

definition InstanceMethod ::
  "string \<Rightarrow> fun_ptr \<Rightarrow> nat \<Rightarrow> native_ptr \<Rightarrow> state \<Rightarrow> napi_property_descriptor \<times> state" where
  "InstanceMethod utf8name method attributes data h =
     (case new_CallbackData \<lparr>cd_callback = method, cd_setter = nullptr, cd_data = data\<rparr> h of
        (callbackData, h1) \<Rightarrow>
          (empty_descriptor
             \<lparr>desc_utf8name := utf8name,
              desc_method := Some InstanceMethodCallbackWrapper_entry,
              desc_data := callbackData,
              desc_attributes := attributes\<rparr>, h1))"

definition InstanceAccessor ::
  "string \<Rightarrow> fun_ptr \<Rightarrow> fun_ptr \<Rightarrow> nat \<Rightarrow> native_ptr \<Rightarrow> state
     \<Rightarrow> napi_property_descriptor \<times> state" where
  "InstanceAccessor utf8name getter setter attributes data h =
     (case new_CallbackData \<lparr>cd_callback = getter, cd_setter = setter, cd_data = data\<rparr> h of
        (callbackData, h1) \<Rightarrow>
          (empty_descriptor
             \<lparr>desc_utf8name := utf8name,
              desc_getter := Some InstanceGetterCallbackWrapper_entry,
              desc_setter := Some InstanceSetterCallbackWrapper_entry,
              desc_data := callbackData,
              desc_attributes := attributes\<rparr>, h1))"

definition napi_define_class ::
  "napi_env \<Rightarrow> string \<Rightarrow> native_entry \<Rightarrow> native_ptr \<Rightarrow> napi_property_descriptor list \<Rightarrow> state
     \<Rightarrow> napi_status \<times> napi_value \<times> state" where
  "napi_define_class env utf8name ctor data properties h =
     (case alloc_value (JClass data (map desc_data properties))
             (called (Abi_define_class data (map desc_data properties)) h) of
        (v, h1) \<Rightarrow> (napi_ok, v, h1))"

definition DefineClass ::
  "napi_env \<Rightarrow> string \<Rightarrow> napi_property_descriptor list \<Rightarrow> native_ptr \<Rightarrow> state
     \<Rightarrow> (abort + Value) \<times> state" where
  "DefineClass env utf8name properties data h =
     (case napi_define_class env utf8name ConstructorCallbackWrapper_entry data properties h of
        (status, value, h1) \<Rightarrow>
          if status \<noteq> napi_ok then throw_Error_New env h1
          else (Inr \<lparr>val_env = env, val_value = value\<rparr>, h1))"

section \<open>The collector\<close>

text \<open>
  The host reclaims a value only when no root with a positive count names it. Reclaiming
  empties the cell, leaves every weak root of the value without referent, and runs the
  finalizer registered by \<^verbatim>\<open>napi_wrap\<close> when a native pointer is attached. Data pointers
  given to \<^verbatim>\<open>napi_create_function\<close> and \<^verbatim>\<open>napi_define_class\<close> come with no finalizer.
\<close>

definition strongly_rooted :: "state \<Rightarrow> napi_value \<Rightarrow> bool" where
  "strongly_rooted h v =
     list_ex (\<lambda>e. case e of None \<Rightarrow> False | Some (v', c) \<Rightarrow> v' = v \<and> 0 < c) (refs h)"

definition clear_referent :: "napi_value \<Rightarrow> (napi_value \<times> int) option \<Rightarrow> (napi_value \<times> int) option" where
  "clear_referent v e =
     (case e of None \<Rightarrow> None | Some (v', c) \<Rightarrow> if v' = v then Some (nullptr, c) else Some (v', c))"

definition host_collect :: "napi_value \<Rightarrow> state \<Rightarrow> (abort + unit) \<times> state" where
  "host_collect v h =
     (if strongly_rooted h v then (Inr (), h)
      else (case cell (heap h) v of
              None \<Rightarrow> (Inr (), h)
            | Some jv \<Rightarrow>
                let h1 = h\<lparr>heap := release (heap h) v, refs := map (clear_referent v) (refs h)\<rparr>
                in (case jv of
                      JObject p \<Rightarrow> if p \<noteq> nullptr then FinalizeCallback p h1 else (Inr (), h1)
                    | _ \<Rightarrow> (Inr (), h1))))"

section \<open>Scopes\<close>

definition HandleScope_ctor :: "napi_env \<Rightarrow> state \<Rightarrow> (abort + nat) \<times> state" where
  "HandleScope_ctor env h =
     (case napi_open_handle_scope env h of
        (status, scope, h1) \<Rightarrow>
          if status \<noteq> napi_ok then throw_Error_New env h1 else (Inr scope, h1))"

definition HandleScope_dtor :: "napi_env \<Rightarrow> nat \<Rightarrow> state \<Rightarrow> state" where
  "HandleScope_dtor env scope h =
     (case napi_close_handle_scope env scope h of (status, h1) \<Rightarrow> h1)"

definition EscapableHandleScope_ctor :: "napi_env \<Rightarrow> state \<Rightarrow> (abort + nat) \<times> state" where
  "EscapableHandleScope_ctor env h =
     (case napi_open_escapable_handle_scope env h of
        (status, scope, h1) \<Rightarrow>
          if status \<noteq> napi_ok then throw_Error_New env h1 else (Inr scope, h1))"

definition EscapableHandleScope_dtor :: "napi_env \<Rightarrow> nat \<Rightarrow> state \<Rightarrow> state" where
  "EscapableHandleScope_dtor env scope h =
     (case napi_close_escapable_handle_scope env scope h of (status, h1) \<Rightarrow> h1)"

definition Escape :: "napi_env \<Rightarrow> nat \<Rightarrow> napi_value \<Rightarrow> state \<Rightarrow> (abort + Value) \<times> state" where
  "Escape env scope escapee h =
     (case napi_escape_handle env scope escapee h of
        (status, result, h1) \<Rightarrow>
          if status \<noteq> napi_ok then throw_Error_New env h1
          else (Inr \<lparr>val_env = env, val_value = result\<rparr>, h1))"

section \<open>FunctionReference and errors with a message\<close>

text \<open>
  \<^verbatim>\<open>FunctionReference::MakeCallback(recv, args)\<close>: the scope is opened, the call is made
  through the dereferenced function, the result escapes, and the scope's destructor runs
  on every way out.
\<close>

definition FunctionReference_MakeCallback ::
  "Reference \<Rightarrow> napi_value \<Rightarrow> napi_value list \<Rightarrow> state \<Rightarrow> (abort + Value) \<times> state" where
  "FunctionReference_MakeCallback r recv args h =
     (case EscapableHandleScope_ctor (ref_env r) h of
        (Inl a, h1) \<Rightarrow> (Inl a, h1)
      | (Inr scope, h1) \<Rightarrow>
          (case (case Reference_Value r h1 of
                   (Inl a, h2) \<Rightarrow> (Inl a, h2)
                 | (Inr f, h2) \<Rightarrow>
                     (case Function_MakeCallback f recv args h2 of
                        (Inl a, h3) \<Rightarrow> (Inl a, h3)
                      | (Inr v, h3) \<Rightarrow> Escape (ref_env r) scope (val_value v) h3))
           of (x, h4) \<Rightarrow> (x, EscapableHandleScope_dtor (ref_env r) scope h4)))"

text \<open>
  The template \<^verbatim>\<open>Error::New<TError>(env, message, length, create_error)\<close>; the string is
  the \<open>length\<close> bytes at \<open>message\<close>.
\<close>

definition Error_New_kind ::
  "error_kind \<Rightarrow> napi_env \<Rightarrow> string \<Rightarrow> state \<Rightarrow> (abort + Error) \<times> state" where
  "Error_New_kind k env message h =
     (case napi_create_string_utf8 env message h of
        (status, str, h1) \<Rightarrow>
          if status \<noteq> napi_ok then throw_Error_New env h1
          else (case create_error_fn k env str h1 of
                  (status, error, h2) \<Rightarrow>
                    if status \<noteq> napi_ok then throw_Error_New env h2
                    else (Inr \<lparr>err_env = env, err_value = error\<rparr>, h2)))"

definition Error_New_message :: "napi_env \<Rightarrow> string \<Rightarrow> state \<Rightarrow> (abort + Error) \<times> state" where
  "Error_New_message env message h = Error_New_kind GenericError env message h"

definition TypeError_New :: "napi_env \<Rightarrow> string \<Rightarrow> state \<Rightarrow> (abort + Error) \<times> state" where
  "TypeError_New env message h = Error_New_kind TypeError env message h"

definition RangeError_New :: "napi_env \<Rightarrow> string \<Rightarrow> state \<Rightarrow> (abort + Error) \<times> state" where
  "RangeError_New env message h = Error_New_kind RangeError env message h"

section \<open>AsyncWorker\<close>

record AsyncWorker =
  aw_env :: napi_env
  aw_work :: nat
  aw_callback :: Reference
  aw_persistent :: Reference
  aw_errmsg :: string

definition SetErrorMessage :: "AsyncWorker \<Rightarrow> string \<Rightarrow> AsyncWorker" where
  "SetErrorMessage w msg = w\<lparr>aw_errmsg := msg\<rparr>"

definition OnOK :: "AsyncWorker \<Rightarrow> state \<Rightarrow> (abort + unit) \<times> state" where
  "OnOK w h =
     (case Env_Global (aw_env w) h of
        (Inl a, h1) \<Rightarrow> (Inl a, h1)
      | (Inr global, h1) \<Rightarrow>
          (case FunctionReference_MakeCallback (aw_callback w) (val_value global) [] h1 of
             (Inl a, h2) \<Rightarrow> (Inl a, h2)
           | (Inr v, h2) \<Rightarrow> (Inr (), h2)))"

text \<open>
  The call in \<^verbatim>\<open>OnError\<close> has two arguments with effects on the host, \<^verbatim>\<open>Env().Global()\<close>
  and \<^verbatim>\<open>Error::New(Env(), _errmsg)\<close>, and the language leaves the order of their
  evaluation to the compiler. The parameter \<open>receiver_first\<close> is that choice; an argument
  that throws ends the call before the other is evaluated.
\<close>

definition OnError :: "bool \<Rightarrow> AsyncWorker \<Rightarrow> state \<Rightarrow> (abort + unit) \<times> state" where
  "OnError receiver_first w h =
     (case (if receiver_first then
              (case Env_Global (aw_env w) h of
                 (Inl a, h1) \<Rightarrow> (Inl a, h1)
               | (Inr global, h1) \<Rightarrow>
                   (case Error_New_message (aw_env w) (aw_errmsg w) h1 of
                      (Inl a, h2) \<Rightarrow> (Inl a, h2)
                    | (Inr e, h2) \<Rightarrow> (Inr (val_value global, err_value e), h2)))
            else
              (case Error_New_message (aw_env w) (aw_errmsg w) h of
                 (Inl a, h1) \<Rightarrow> (Inl a, h1)
               | (Inr e, h1) \<Rightarrow>
                   (case Env_Global (aw_env w) h1 of
                      (Inl a, h2) \<Rightarrow> (Inl a, h2)
                    | (Inr global, h2) \<Rightarrow> (Inr (val_value global, err_value e), h2))))
      of (Inl a, h2) \<Rightarrow> (Inl a, h2)
       | (Inr (recv, arg), h2) \<Rightarrow>
           (case FunctionReference_MakeCallback (aw_callback w) recv [arg] h2 of
              (Inl a, h3) \<Rightarrow> (Inl a, h3)
            | (Inr v, h3) \<Rightarrow> (Inr (), h3)))"

definition WorkComplete :: "bool \<Rightarrow> AsyncWorker \<Rightarrow> state \<Rightarrow> (abort + unit) \<times> state" where
  "WorkComplete receiver_first w h =
     (case HandleScope_ctor (aw_env w) h of
        (Inl a, h1) \<Rightarrow> (Inl a, h1)
      | (Inr scope, h1) \<Rightarrow>
          (case (if length (aw_errmsg w) = 0 then OnOK w h1 else OnError receiver_first w h1) of
             (x, h2) \<Rightarrow> (x, HandleScope_dtor (aw_env w) scope h2)))"

definition OnWorkComplete :: "bool \<Rightarrow> AsyncWorker \<Rightarrow> state \<Rightarrow> (abort + unit) \<times> state" where
  "OnWorkComplete receiver_first self h = WorkComplete receiver_first self h"

text \<open>The calls of \<^verbatim>\<open>napi_make_callback\<close> in a trace: receiver, function, arguments.\<close>

fun invocations :: "abi_call list \<Rightarrow> (napi_value \<times> napi_value \<times> napi_value list) list" where
  "invocations [] = []"
| "invocations (Abi_make_callback recv func args # cs) = (recv, func, args) # invocations cs"
| "invocations (c # cs) = invocations cs"

text \<open>The values handed to \<^verbatim>\<open>napi_throw\<close> in a trace.\<close>

fun thrown :: "abi_call list \<Rightarrow> napi_value list" where
  "thrown [] = []"
| "thrown (Abi_throw v # cs) = v # thrown cs"
| "thrown (c # cs) = thrown cs"

text \<open>The calls of \<^verbatim>\<open>napi_create_reference\<close> in a trace.\<close>

fun created_roots :: "abi_call list \<Rightarrow> (napi_value \<times> int) list" where
  "created_roots [] = []"
| "created_roots (Abi_create_reference v c # cs) = (v, c) # created_roots cs"
| "created_roots (c # cs) = created_roots cs"

section \<open>Example states\<close>

text \<open>A host in which nothing has happened yet, and a message table with two entries.\<close>

definition host0 :: state where
  "host0 =
     \<lparr>heap = [], pending = None,
      last_error = \<lparr>error_message = None, error_code = napi_ok\<rparr>,
      error_messages = (\<lambda>st. None),
      refs = [], scopes = 0, return_slot = None, cbdata = [], instances = [], trace = []\<rparr>"

definition messages0 :: "napi_status \<Rightarrow> string option" where
  "messages0 st =
     (if st = napi_string_expected then Some ''A string was expected''
      else if st = napi_object_expected then Some ''An object was expected''
      else None)"

text \<open>
  A host as a failed entry point leaves it, with status "string expected" recorded; a
  host whose only value is a string.
\<close>

definition host_string_expected :: state where
  "host_string_expected =
     host0\<lparr>last_error := \<lparr>error_message = None, error_code = napi_string_expected\<rparr>,
           error_messages := messages0\<rparr>"

definition host_text :: state where
  "host_text = host0\<lparr>heap := [Some (JString ''text'')], error_messages := messages0\<rparr>"

text \<open>
  A host with one object held by a root of count 1; a host whose only root has lost its
  referent to the collector; a call frame with two arguments.
\<close>

definition host_rooted :: state where
  "host_rooted = host0\<lparr>heap := [Some (JObject nullptr)], refs := [Some (1, 1)]\<rparr>"

definition host_collected :: state where
  "host_collected = host0\<lparr>heap := [None], refs := [Some (nullptr, 0)]\<rparr>"

definition frame2 :: frame where
  "frame2 = \<lparr>cb_this = 1, cb_args = [11, 12], cb_data = 1, cb_construct = False\<rparr>"

text \<open>
  A host with a wrapped object, two error objects and one registration; user callbacks
  that throw an error without host value, an error with host value 2, and an error after
  leaving host exception 3 pending; a construct frame on a fresh object with a
  constructor that does nothing; a worker whose callback is held by root 1.
\<close>

definition host_registered :: state where
  "host_registered =
     host0\<lparr>heap := [Some (JObject 1), Some (JError RangeError ''out of range''),
                    Some (JError GenericError ''earlier'')],
           cbdata := [Some \<lparr>cd_callback = 3, cd_setter = nullptr, cd_data = 9\<rparr>],
           instances := [Some Reference_default]\<rparr>"

definition throws_empty :: "fun_ptr \<Rightarrow> FunctionCallback" where
  "throws_empty p info h = (Inl (Throw \<lparr>err_env = nullptr, err_value = nullptr\<rparr>), h)"

definition throws_value :: "fun_ptr \<Rightarrow> native_ptr \<Rightarrow> FunctionCallback" where
  "throws_value p instance info h = (Inl (Throw \<lparr>err_env = ci_env info, err_value = 2\<rparr>), h)"

definition throws_after_host_throw :: "fun_ptr \<Rightarrow> FunctionCallback" where
  "throws_after_host_throw p info h =
     (Inl (Throw \<lparr>err_env = ci_env info, err_value = 2\<rparr>), h\<lparr>pending := Some 3\<rparr>)"

definition register_throws :: ModuleRegisterCallback where
  "register_throws env exports module h = (Inl (Throw \<lparr>err_env = env, err_value = 2\<rparr>), h)"

definition frame_new :: frame where
  "frame_new = \<lparr>cb_this = 1, cb_args = [], cb_data = nullptr, cb_construct = True\<rparr>"

definition host_fresh :: state where
  "host_fresh = host0\<lparr>heap := [Some (JObject nullptr)]\<rparr>"

definition ctor_plain :: Constructor where
  "ctor_plain p info h = (Inr (), h)"

definition host_worker :: state where
  "host_worker = host0\<lparr>heap := [Some (JFunction (Returns 1))], refs := [Some (1, 1)]\<rparr>"

definition worker_ok :: AsyncWorker where
  "worker_ok =
     \<lparr>aw_env = 7, aw_work = 1, aw_callback = Reference_ctor False 7 1,
      aw_persistent = Reference_default, aw_errmsg = []\<rparr>"

definition worker_boom :: AsyncWorker where
  "worker_boom = SetErrorMessage worker_ok ''boom''"

section \<open>Facts about cells and traces\<close>

lemma cell_null: "cell xs nullptr = None"
  by (simp add: cell_def)

lemma cell_store_new: "cell (xs @ [Some x]) (Suc (length xs)) = Some x"
  by (simp add: cell_def)

lemma cell_append_old: "p \<le> length xs \<Longrightarrow> cell (xs @ ys) p = cell xs p"
  by (cases p) (auto simp add: cell_def nth_append)

lemma cell_store_old: "p \<le> length xs \<Longrightarrow> cell (xs @ [y]) p = cell xs p"
  by (cases p) (auto simp add: cell_def nth_append)

lemma cell_beyond: "length xs < p \<Longrightarrow> cell xs p = None"
  by (simp add: cell_def)

lemma cell_Some_bounds: "cell xs p = Some x \<Longrightarrow> 0 < p \<and> p \<le> length xs"
  by (auto simp add: cell_def split: if_splits)

lemma cell_release_same: "cell (release xs p) p = None"
  by (auto simp add: cell_def release_def)

lemma cell_assign_same: "cell xs p \<noteq> None \<Longrightarrow> cell (assign xs p x) p = Some x"
  by (auto simp add: cell_def assign_def split: if_splits)

lemma cell_assign_other: "q \<noteq> p \<Longrightarrow> cell (assign xs p x) q = cell xs q"
  by (cases p; cases q) (auto simp add: cell_def assign_def)

lemma invocations_append: "invocations (xs @ ys) = invocations xs @ invocations ys"
  by (induction xs rule: invocations.induct) simp_all

lemma thrown_append: "thrown (xs @ ys) = thrown xs @ thrown ys"
  by (induction xs rule: thrown.induct) simp_all

lemma created_roots_append: "created_roots (xs @ ys) = created_roots xs @ created_roots ys"
  by (induction xs rule: created_roots.induct) simp_all

section \<open>Error::New without a message\<close>

lemma Error_New_pending:
  "pending h = Some x \<Longrightarrow>
   Error_New env h =
     (\<lparr>err_env = env, err_value = x\<rparr>,
      (called Abi_get_and_clear_last_exception (called Abi_is_exception_pending h))
        \<lparr>pending := None\<rparr>)"
  by (simp add: Error_New_def IsExceptionPending_def napi_is_exception_pending_def
      napi_get_and_clear_last_exception_def called_def traced_def Let_def)

text \<open>
  With nothing pending, the code that the \<^verbatim>\<open>switch\<close> reads is the one the record holds
  after \<^verbatim>\<open>napi_is_exception_pending\<close> and \<^verbatim>\<open>napi_create_string_utf8\<close> have run, and the
  message is the one looked up after \<^verbatim>\<open>napi_is_exception_pending\<close>: whatever status the
  failed entry point had recorded, the result is an error of the generic kind with the
  table's message for \<^verbatim>\<open>napi_ok\<close>, or the fixed text when the table has none.
\<close>

lemma Error_New_synthesized:
  "pending h = None \<Longrightarrow>
   \<exists>e h'. Error_New env h = (e, h') \<and> err_env e = env \<and>
     cell (heap h) (err_value e) = None \<and>
     cell (heap h') (err_value e) =
       Some (JError GenericError
              (case error_messages h napi_ok of
                 Some m \<Rightarrow> m | None \<Rightarrow> ''Error in native callback''))
     \<and> pending h' = None"
  by (auto simp add: Error_New_def IsExceptionPending_def napi_is_exception_pending_def
      napi_get_last_error_info_def napi_create_string_utf8_def create_error_fn_def
      alloc_value_def store_def called_def traced_def Let_def cell_def nth_append
      split: if_splits)

text \<open>
  C3. With a host exception pending, \<^verbatim>\<open>Error::New(env)\<close> wraps that exception and clears
  it. With none pending and the status "string expected" recorded by the entry point
  that has just failed, a table that holds a message for that status and none for
  \<^verbatim>\<open>napi_ok\<close>, the result wraps a new error of the generic kind with the text
  "Error in native callback", not a type error with the recorded message. The same
  happens on the way through the wrappers: \<^verbatim>\<open>Unwrap\<close> of a string fails with "object
  expected" and throws an error of the generic kind.
\<close>

theorem Error_New_misses_type_expectation:
  "fst (Error_New 7 (host0\<lparr>heap := [Some (JError RangeError ''late'')], pending := Some 1\<rparr>))
     = \<lparr>err_env = 7, err_value = 1\<rparr>
   \<and> pending (snd (Error_New 7
         (host0\<lparr>heap := [Some (JError RangeError ''late'')], pending := Some 1\<rparr>))) = None
   \<and> pending host_string_expected = None
   \<and> error_code (last_error host_string_expected) = napi_string_expected
   \<and> error_messages host_string_expected napi_string_expected = Some ''A string was expected''
   \<and> fst (Error_New 7 host_string_expected) = \<lparr>err_env = 7, err_value = 2\<rparr>
   \<and> cell (heap (snd (Error_New 7 host_string_expected))) 2
       = Some (JError GenericError ''Error in native callback'')
   \<and> fst (napi_unwrap 7 1 host_text) = napi_object_expected
   \<and> fst (Unwrap \<lparr>val_env = 7, val_value = 1\<rparr> host_text)
       = Inl (Throw \<lparr>err_env = 7, err_value = 3\<rparr>)
   \<and> cell (heap (snd (Unwrap \<lparr>val_env = 7, val_value = 1\<rparr> host_text))) 3
       = Some (JError GenericError ''Error in native callback'')"
  by (simp add: Error_New_def IsExceptionPending_def napi_is_exception_pending_def
      napi_get_and_clear_last_exception_def napi_get_last_error_info_def
      napi_create_string_utf8_def create_error_fn_def alloc_value_def store_def called_def
      traced_def failed_def Let_def cell_def Unwrap_def napi_unwrap_def throw_Error_New_def
      host_string_expected_def host_text_def host0_def messages0_def)

section \<open>Reference: dereferencing\<close>

lemma Value_empty:
  "IsEmpty r \<Longrightarrow> Reference_Value r h = (Inr \<lparr>val_env = ref_env r, val_value = nullptr\<rparr>, h)"
  by (simp add: IsEmpty_def Reference_Value_def)

lemma Value_valid:
  "cell (refs h) (ref_ref r) = Some (v, c) \<Longrightarrow>
   Reference_Value r h =
     (Inr \<lparr>val_env = ref_env r, val_value = v\<rparr>, called (Abi_get_reference_value (ref_ref r)) h)"
  by (auto simp add: Reference_Value_def napi_get_reference_value_def called_def traced_def Let_def
      cell_def split: if_splits)

lemma IsUndefined_null:
  "IsUndefined \<lparr>val_env = env, val_value = nullptr\<rparr> h = (Inr True, h)"
  by (simp add: IsUndefined_def Value_Type_def)

lemma Weak_creates:
  "cell (heap h) v \<noteq> None \<Longrightarrow>
   Weak indet \<lparr>val_env = env, val_value = v\<rparr> h =
     (Inr (Reference_ctor indet env (Suc (length (refs h)))),
      (called (Abi_create_reference v 0) h)\<lparr>refs := refs h @ [Some (v, 0)]\<rparr>)"
  by (auto simp add: Weak_def Reference_New_def napi_create_reference_def called_def traced_def Let_def
      store_def cell_def)

lemma collect_unrooted:
  "cell (heap h) v = Some JNull \<Longrightarrow> \<not> strongly_rooted h v \<Longrightarrow>
   host_collect v h =
     (Inr (), h\<lparr>heap := release (heap h) v, refs := map (clear_referent v) (refs h)\<rparr>)"
  by (simp add: host_collect_def Let_def)

lemma Weak_then_collect:
  assumes "cell (heap h) v = Some JNull" and "\<not> strongly_rooted h v"
  shows "\<exists>r h1 h2. Weak indet \<lparr>val_env = env, val_value = v\<rparr> h = (Inr r, h1)
      \<and> host_collect v h1 = (Inr (), h2)
      \<and> cell (refs h2) (ref_ref r) = Some (nullptr, 0)"
proof -
  let ?h1 = "(called (Abi_create_reference v 0) h)\<lparr>refs := refs h @ [Some (v, 0)]\<rparr>"
  let ?h2 = "?h1\<lparr>heap := release (heap ?h1) v, refs := map (clear_referent v) (refs ?h1)\<rparr>"
  have w: "Weak indet \<lparr>val_env = env, val_value = v\<rparr> h =
             (Inr (Reference_ctor indet env (Suc (length (refs h)))), ?h1)"
    using assms(1) by (simp add: Weak_creates)
  have live: "cell (heap ?h1) v = Some JNull"
    using assms(1) by (simp add: called_def traced_def)
  have unrooted: "\<not> strongly_rooted ?h1 v"
    using assms(2) by (simp add: strongly_rooted_def)
  have c: "host_collect v ?h1 = (Inr (), ?h2)"
    using collect_unrooted [OF live unrooted] .
  have "map (clear_referent v) (refs ?h1) = map (clear_referent v) (refs h) @ [Some (nullptr, 0)]"
    by (simp add: clear_referent_def)
  then have "cell (refs ?h2) (Suc (length (refs h))) = Some (nullptr, 0)"
    using cell_store_new [of "map (clear_referent v) (refs h)" "(nullptr, 0)"] by simp
  then have "cell (refs ?h2) (ref_ref (Reference_ctor indet env (Suc (length (refs h))))) =
               Some (nullptr, 0)"
    by (simp add: Reference_ctor_def)
  with w c show ?thesis by blast
qed

text \<open>
  C5. \<^verbatim>\<open>Value()\<close> of an empty reference returns the null handle without calling the host.
  \<^verbatim>\<open>Value()\<close> of a reference whose referent was collected (at any count, 0 included)
  returns the null handle after one call of \<^verbatim>\<open>napi_get_reference_value\<close>. A reference that
  is empty or whose root exists never reaches the throwing branch. The null handle reads
  as the undefined sentinel: \<^verbatim>\<open>IsUndefined\<close> holds of it, without a host call.
\<close>

theorem Value_of_empty_or_collected:
  "(IsEmpty r \<longrightarrow>
      Reference_Value r h = (Inr \<lparr>val_env = ref_env r, val_value = nullptr\<rparr>, h))
   \<and> (cell (refs h) (ref_ref r) = Some (nullptr, c) \<longrightarrow>
      Reference_Value r h =
        (Inr \<lparr>val_env = ref_env r, val_value = nullptr\<rparr>,
         called (Abi_get_reference_value (ref_ref r)) h))
   \<and> (IsEmpty r \<or> cell (refs h) (ref_ref r) \<noteq> None \<longrightarrow>
      (\<exists>v h'. Reference_Value r h = (Inr v, h')))
   \<and> IsUndefined \<lparr>val_env = ref_env r, val_value = nullptr\<rparr> h' = (Inr True, h')"
  using Value_empty [of r h] Value_valid [of h r] IsUndefined_null [of "ref_env r" h']
  by auto

theorem Value_of_empty_or_collected_witness:
  "IsEmpty Reference_default
   \<and> Reference_Value Reference_default host0
       = (Inr \<lparr>val_env = nullptr, val_value = nullptr\<rparr>, host0)
   \<and> cell (refs host_collected) 1 = Some (nullptr, 0)
   \<and> fst (Reference_Value (Reference_ctor False 7 1) host_collected)
       = Inr \<lparr>val_env = 7, val_value = nullptr\<rparr>
   \<and> IsUndefined \<lparr>val_env = 7, val_value = nullptr\<rparr> host_collected = (Inr True, host_collected)"
  using Value_of_empty_or_collected [of Reference_default host0 0 host0]
        Value_of_empty_or_collected [of "Reference_ctor False 7 1" host_collected 0 host_collected]
  by (simp add: IsEmpty_def Reference_default_def Reference_ctor_def host_collected_def
      host0_def cell_def)

section \<open>Reference: counting\<close>

lemma Unref_at:
  "cell (refs h) (ref_ref r) = Some (v, c) \<Longrightarrow> c \<noteq> 0 \<Longrightarrow>
   Unref r h = (Inr (c - 1),
     (called (Abi_reference_unref (ref_ref r)) h)
       \<lparr>refs := assign (refs h) (ref_ref r) (v, c - 1)\<rparr>)"
  by (simp add: Unref_def napi_reference_unref_def called_def traced_def Let_def)

lemma Ref_at:
  "cell (refs h) (ref_ref r) = Some (v, c) \<Longrightarrow>
   Ref r h = (Inr (c + 1),
     (called (Abi_reference_ref (ref_ref r)) h)
       \<lparr>refs := assign (refs h) (ref_ref r) (v, c + 1)\<rparr>)"
  by (simp add: Ref_def napi_reference_ref_def called_def traced_def Let_def)

text \<open>
  C7. For a reference whose root stands at count 1 with referent \<open>v\<close>: \<^verbatim>\<open>Unref()\<close> returns 0
  and leaves the root at count 0, \<^verbatim>\<open>Ref()\<close> then returns 1 and leaves the root at count 1,
  and \<^verbatim>\<open>Value()\<close> afterwards returns \<open>v\<close>, with the host heap as it was.
\<close>

theorem Unref_then_Ref_at_one:
  assumes "cell (refs h) (ref_ref r) = Some (v, 1)"
  shows "\<exists>h1 h2 h3.
           Unref r h = (Inr 0, h1) \<and> cell (refs h1) (ref_ref r) = Some (v, 0)
         \<and> Ref r h1 = (Inr 1, h2) \<and> cell (refs h2) (ref_ref r) = Some (v, 1)
         \<and> Reference_Value r h2 = (Inr \<lparr>val_env = ref_env r, val_value = v\<rparr>, h3)
         \<and> heap h3 = heap h"
proof -
  let ?h1 = "(called (Abi_reference_unref (ref_ref r)) h)
               \<lparr>refs := assign (refs h) (ref_ref r) (v, 0)\<rparr>"
  let ?h2 = "(called (Abi_reference_ref (ref_ref r)) ?h1)
               \<lparr>refs := assign (refs ?h1) (ref_ref r) (v, 1)\<rparr>"
  have u: "Unref r h = (Inr 0, ?h1)"
    using Unref_at [OF assms] by simp
  have c1: "cell (refs ?h1) (ref_ref r) = Some (v, 0)"
    using assms by (simp add: cell_assign_same)
  have f: "Ref r ?h1 = (Inr 1, ?h2)"
    using Ref_at [OF c1] by simp
  have c2: "cell (refs ?h2) (ref_ref r) = Some (v, 1)"
    using c1 by (simp add: cell_assign_same)
  have g: "Reference_Value r ?h2 =
             (Inr \<lparr>val_env = ref_env r, val_value = v\<rparr>,
              called (Abi_get_reference_value (ref_ref r)) ?h2)"
    using Value_valid [OF c2] .
  have hp: "heap (called (Abi_get_reference_value (ref_ref r)) ?h2) = heap h"
    by (simp add: called_def traced_def)
  from u c1 f c2 g hp show ?thesis by blast
qed

theorem Unref_then_Ref_at_one_witness:
  "cell (refs host_rooted) (ref_ref (Reference_ctor False 7 1)) = Some (1, 1)
   \<and> (\<exists>h1 h2 h3.
           Unref (Reference_ctor False 7 1) host_rooted = (Inr 0, h1)
         \<and> Ref (Reference_ctor False 7 1) h1 = (Inr 1, h2)
         \<and> Reference_Value (Reference_ctor False 7 1) h2 = (Inr \<lparr>val_env = 7, val_value = 1\<rparr>, h3)
         \<and> cell (heap h3) 1 = Some (JObject nullptr))"
proof -
  have c: "cell (refs host_rooted) (ref_ref (Reference_ctor False 7 1)) = Some (1, 1)"
    by (simp add: host_rooted_def host0_def Reference_ctor_def cell_def)
  from Unref_then_Ref_at_one [OF c]
  obtain h1 h2 h3 where
    "Unref (Reference_ctor False 7 1) host_rooted = (Inr 0, h1)"
    "Ref (Reference_ctor False 7 1) h1 = (Inr 1, h2)"
    "Reference_Value (Reference_ctor False 7 1) h2 =
       (Inr \<lparr>val_env = ref_env (Reference_ctor False 7 1), val_value = 1\<rparr>, h3)"
    "heap h3 = heap host_rooted"
    by blast
  moreover have "cell (heap host_rooted) 1 = Some (JObject nullptr)"
    by (simp add: host_rooted_def host0_def cell_def)
  moreover have "ref_env (Reference_ctor False 7 1) = 7"
    by (simp add: Reference_ctor_def)
  ultimately show ?thesis using c by auto
qed

section \<open>Reference: empty values\<close>

lemma Reference_New_null:
  "val_value value = nullptr \<Longrightarrow>
   Reference_New indet value count h = (Inr (Reference_ctor indet (val_env value) nullptr), h)"
  by (simp add: Reference_New_def Let_def)

lemma created_roots_Error_New:
  "created_roots (trace (snd (Error_New env h))) = created_roots (trace h)"
proof (cases "pending h")
  case None
  then show ?thesis
    by (simp add: Error_New_def IsExceptionPending_def napi_is_exception_pending_def
        napi_get_last_error_info_def napi_create_string_utf8_def create_error_fn_def
        alloc_value_def store_def called_def traced_def Let_def cell_store_new created_roots_append)
next
  case (Some x)
  then show ?thesis
    by (simp add: Error_New_pending called_def traced_def created_roots_append)
qed

lemma Reset_empty: "ref_ref r = nullptr \<Longrightarrow> Reset r h = (Inr (), r, h)"
  by (simp add: Reset_def)

lemma Reset_valid:
  "cell (refs h) (ref_ref r) = Some e \<Longrightarrow>
   Reset r h =
     (Inr (), r\<lparr>ref_ref := nullptr\<rparr>,
      (called (Abi_delete_reference (ref_ref r)) h)\<lparr>refs := release (refs h) (ref_ref r)\<rparr>)"
  by (auto simp add: Reset_def napi_delete_reference_def called_def traced_def Let_def cell_null)

lemma Reset_invalid:
  "ref_ref r \<noteq> nullptr \<Longrightarrow> cell (refs h) (ref_ref r) = None \<Longrightarrow>
   Reset r h =
     (Inl (Throw (fst (Error_New (ref_env r)
                         (failed napi_invalid_arg (called (Abi_delete_reference (ref_ref r)) h))))),
      r,
      snd (Error_New (ref_env r)
             (failed napi_invalid_arg (called (Abi_delete_reference (ref_ref r)) h))))"
  by (simp add: Reset_def napi_delete_reference_def called_def traced_def failed_def Let_def
      throw_Error_New_def split: prod.splits)

lemma Reset_value_null:
  "val_value value = nullptr \<Longrightarrow>
   Reset_value r value count h =
     (case Reset r h of
        (Inl a, r1, h1) \<Rightarrow> (Inl a, r1, h1)
      | (Inr u, r1, h1) \<Rightarrow> (Inr (), r1\<lparr>ref_env := val_env value\<rparr>, h1))"
  by (simp add: Reset_value_def Let_def split: prod.splits sum.splits)

lemma Reset_value_null_no_create:
  assumes "val_value value = nullptr"
  shows "created_roots (trace (snd (snd (Reset_value r value count h)))) = created_roots (trace h)"
proof (cases "ref_ref r = nullptr")
  case True
  then show ?thesis
    by (simp add: Reset_value_null [OF assms] Reset_empty)
next
  case False
  show ?thesis
  proof (cases "cell (refs h) (ref_ref r)")
    case None
    show ?thesis
      by (simp add: Reset_value_null [OF assms] Reset_invalid [OF False None]
          created_roots_Error_New)
         (simp add: failed_def called_def traced_def created_roots_append)
  next
    case (Some e)
    show ?thesis
      by (simp add: Reset_value_null [OF assms] Reset_valid [OF Some] called_def traced_def
          created_roots_append)
  qed
qed

lemma Reset_value_null_valid:
  assumes "val_value value = nullptr" and "IsEmpty r \<or> cell (refs h) (ref_ref r) \<noteq> None"
  shows "\<exists>r' h'. Reset_value r value count h = (Inr (), r', h') \<and> IsEmpty r'
      \<and> ref_env r' = val_env value \<and> cell (refs h') (ref_ref r) = None"
proof (cases "ref_ref r = nullptr")
  case True
  then show ?thesis
    by (simp add: Reset_value_null [OF assms(1)] Reset_empty IsEmpty_def cell_null)
next
  case False
  with assms(2) obtain e where e: "cell (refs h) (ref_ref r) = Some e"
    by (auto simp add: IsEmpty_def)
  show ?thesis
    by (simp add: Reset_value_null [OF assms(1)] Reset_valid [OF e] IsEmpty_def
        cell_release_same)
qed

text \<open>
  C10. \<^verbatim>\<open>Reference<T>::New(value, count)\<close> with a null underlying value returns an empty
  reference and leaves the state untouched, so no entry point is called.
  \<^verbatim>\<open>Reset(value, count)\<close> with a null underlying value never calls
  \<^verbatim>\<open>napi_create_reference\<close>; when the reference was empty or held an existing root, it
  returns normally, the prior root is gone and the reference is empty.
\<close>

theorem Reference_from_empty_value:
  "(val_value value = nullptr \<longrightarrow>
      Reference_New indet value count h = (Inr (Reference_ctor indet (val_env value) nullptr), h)
      \<and> IsEmpty (Reference_ctor indet (val_env value) nullptr))
   \<and> (val_value value = nullptr \<longrightarrow>
      created_roots (trace (snd (snd (Reset_value r value count h)))) = created_roots (trace h))
   \<and> (val_value value = nullptr \<and> (IsEmpty r \<or> cell (refs h) (ref_ref r) \<noteq> None) \<longrightarrow>
      (\<exists>r' h'. Reset_value r value count h = (Inr (), r', h') \<and> IsEmpty r'
         \<and> ref_env r' = val_env value \<and> cell (refs h') (ref_ref r) = None))"
proof (intro conjI impI)
  assume "val_value value = nullptr"
  then show "Reference_New indet value count h =
               (Inr (Reference_ctor indet (val_env value) nullptr), h)"
    by (rule Reference_New_null)
next
  show "IsEmpty (Reference_ctor indet (val_env value) nullptr)"
    by (simp add: IsEmpty_def Reference_ctor_def)
next
  assume "val_value value = nullptr"
  then show "created_roots (trace (snd (snd (Reset_value r value count h)))) =
               created_roots (trace h)"
    by (rule Reset_value_null_no_create)
next
  assume "val_value value = nullptr \<and> (IsEmpty r \<or> cell (refs h) (ref_ref r) \<noteq> None)"
  then show "\<exists>r' h'. Reset_value r value count h = (Inr (), r', h') \<and> IsEmpty r'
         \<and> ref_env r' = val_env value \<and> cell (refs h') (ref_ref r) = None"
    using Reset_value_null_valid [of "value" r h count] by blast
qed

theorem Reference_from_empty_value_witness:
  "val_value \<lparr>val_env = 7, val_value = nullptr\<rparr> = nullptr
   \<and> Reference_New False \<lparr>val_env = 7, val_value = nullptr\<rparr> 1 host_rooted
       = (Inr (Reference_ctor False 7 nullptr), host_rooted)
   \<and> cell (refs host_rooted) (ref_ref (Reference_ctor False 7 1)) \<noteq> None
   \<and> (\<exists>r' h'. Reset_value (Reference_ctor False 7 1) \<lparr>val_env = 7, val_value = nullptr\<rparr> 1
                   host_rooted = (Inr (), r', h')
         \<and> IsEmpty r' \<and> cell (refs h') 1 = None
         \<and> created_roots (trace h') = created_roots (trace host_rooted))"
proof -
  have v: "val_value \<lparr>val_env = 7, val_value = nullptr\<rparr> = nullptr"
    by simp
  have c: "cell (refs host_rooted) (ref_ref (Reference_ctor False 7 1)) \<noteq> None"
    by (simp add: host_rooted_def host0_def Reference_ctor_def cell_def)
  note t = Reference_from_empty_value
             [of "\<lparr>val_env = 7, val_value = nullptr\<rparr>" False 1 host_rooted
                 "Reference_ctor False 7 1"]
  from t v have n: "Reference_New False \<lparr>val_env = 7, val_value = nullptr\<rparr> 1 host_rooted
       = (Inr (Reference_ctor False 7 nullptr), host_rooted)"
    by simp
  from t v have k: "created_roots (trace (snd (snd (Reset_value (Reference_ctor False 7 1)
                      \<lparr>val_env = 7, val_value = nullptr\<rparr> 1 host_rooted))))
                    = created_roots (trace host_rooted)"
    by simp
  from t v c obtain r' h' where
    r: "Reset_value (Reference_ctor False 7 1) \<lparr>val_env = 7, val_value = nullptr\<rparr> 1
          host_rooted = (Inr (), r', h')"
    and "IsEmpty r'" and "cell (refs h') (ref_ref (Reference_ctor False 7 1)) = None"
    by blast
  moreover from this have "cell (refs h') 1 = None"
    by (simp add: Reference_ctor_def)
  moreover from k r have "created_roots (trace h') = created_roots (trace host_rooted)"
    by simp
  ultimately show ?thesis using v n c by blast
qed

section \<open>CallbackInfo: argument access\<close>

lemma Env_Undefined_fresh:
  "Env_Undefined env h =
     (Inr \<lparr>val_env = env, val_value = Suc (length (heap h))\<rparr>,
      (called Abi_get_undefined h)\<lparr>heap := heap h @ [Some JUndefined]\<rparr>)"
  by (simp add: Env_Undefined_def napi_get_undefined_def alloc_value_def store_def called_def traced_def)

lemma CallbackInfo_ctor_ok:
  "CallbackInfo_ctor sac env fr h =
     (Inr \<lparr>ci_env = env, ci_this = cb_this fr, ci_argc = int (length (cb_args fr)),
           ci_argv = cb_args fr,
           ci_dynamicArgs = (cb_args fr \<noteq> [] \<and> \<not> int (length (cb_args fr)) \<le> sac),
           ci_data = cb_data fr\<rparr>,
      called Abi_get_cb_data
        (if cb_args fr = [] then called Abi_get_cb_args_length (called Abi_get_cb_this h)
         else called (Abi_get_cb_args (length (cb_args fr)))
                (called Abi_get_cb_args_length (called Abi_get_cb_this h))))"
  by (simp add: CallbackInfo_ctor_def napi_get_cb_this_def napi_get_cb_args_length_def
      napi_get_cb_args_def napi_get_cb_data_def called_def traced_def)

lemma index_beyond:
  "ci_argc info \<le> index \<Longrightarrow> CallbackInfo_index info index h = Env_Undefined (ci_env info) h"
  by (simp add: CallbackInfo_index_def)

lemma index_within:
  "0 \<le> index \<Longrightarrow> index < ci_argc info \<Longrightarrow> nat index < length (ci_argv info) \<Longrightarrow>
   CallbackInfo_index info index h =
     (Inr \<lparr>val_env = ci_env info, val_value = ci_argv info ! nat index\<rparr>, h)"
  by (simp add: CallbackInfo_index_def)

text \<open>
  C9. For an index at or beyond \<^verbatim>\<open>Length()\<close>, \<^verbatim>\<open>operator []\<close> is \<^verbatim>\<open>Env().Undefined()\<close>,
  whatever the argument array holds, and that is a handle of the undefined value. The
  constructor always succeeds on a frame, \<^verbatim>\<open>Length()\<close> is the number of arguments of the
  frame, and for every index from 0 up to \<^verbatim>\<open>Length()\<close> the operator returns the frame's
  argument at that position and calls nothing.
\<close>

theorem CallbackInfo_index_bounds:
  "(Length info \<le> index \<longrightarrow>
      CallbackInfo_index info index h = Env_Undefined (ci_env info) h
      \<and> CallbackInfo_index (info\<lparr>ci_argv := a\<rparr>) index h = Env_Undefined (ci_env info) h
      \<and> (\<exists>v h'. Env_Undefined (ci_env info) h = (Inr v, h') \<and> val_env v = ci_env info
            \<and> cell (heap h') (val_value v) = Some JUndefined))
   \<and> (\<exists>made h1. CallbackInfo_ctor sac env fr h = (Inr made, h1)
         \<and> Length made = int (length (cb_args fr))
         \<and> (\<forall>i h2. 0 \<le> i \<and> i < Length made \<longrightarrow>
               CallbackInfo_index made i h2 =
                 (Inr \<lparr>val_env = env, val_value = cb_args fr ! nat i\<rparr>, h2)))"
proof (intro conjI impI)
  assume "Length info \<le> index"
  then show "CallbackInfo_index info index h = Env_Undefined (ci_env info) h"
    by (simp add: Length_def index_beyond)
next
  assume "Length info \<le> index"
  then show "CallbackInfo_index (info\<lparr>ci_argv := a\<rparr>) index h = Env_Undefined (ci_env info) h"
    by (simp add: Length_def index_beyond)
next
  show "\<exists>v h'. Env_Undefined (ci_env info) h = (Inr v, h') \<and> val_env v = ci_env info
            \<and> cell (heap h') (val_value v) = Some JUndefined"
    by (simp add: Env_Undefined_fresh called_def traced_def cell_store_new)
next
  show "\<exists>made h1. CallbackInfo_ctor sac env fr h = (Inr made, h1)
         \<and> Length made = int (length (cb_args fr))
         \<and> (\<forall>i h2. 0 \<le> i \<and> i < Length made \<longrightarrow>
               CallbackInfo_index made i h2 =
                 (Inr \<lparr>val_env = env, val_value = cb_args fr ! nat i\<rparr>, h2))"
    by (auto simp add: CallbackInfo_ctor_ok Length_def CallbackInfo_index_def)
qed

theorem CallbackInfo_index_bounds_witness:
  "(\<exists>made h1. CallbackInfo_ctor 6 7 frame2 host0 = (Inr made, h1) \<and> Length made = 2
      \<and> Length made \<le> 5
      \<and> CallbackInfo_index made 5 h1 = Env_Undefined 7 h1
      \<and> (0::int) \<le> 1 \<and> 1 < Length made
      \<and> CallbackInfo_index made 1 h1 = (Inr \<lparr>val_env = 7, val_value = 12\<rparr>, h1))"
proof -
  from CallbackInfo_index_bounds [of _ _ host0 _ 6 7 frame2]
  obtain made h1 where m: "CallbackInfo_ctor 6 7 frame2 host0 = (Inr made, h1)"
    and l: "Length made = int (length (cb_args frame2))"
    and i: "\<forall>i h2. 0 \<le> i \<and> i < Length made \<longrightarrow>
               CallbackInfo_index made i h2 =
                 (Inr \<lparr>val_env = 7, val_value = cb_args frame2 ! nat i\<rparr>, h2)"
    by blast
  have l2: "Length made = 2"
    using l by (simp add: frame2_def)
  have e: "ci_env made = 7"
    using m by (simp add: CallbackInfo_ctor_ok) auto
  have b: "CallbackInfo_index made 5 h1 = Env_Undefined 7 h1"
    using CallbackInfo_index_bounds [of made 5 h1 "[]" 6 7 frame2] l2 e by simp
  have w: "CallbackInfo_index made 1 h1 = (Inr \<lparr>val_env = 7, val_value = 12\<rparr>, h1)"
    using i l2 by (simp add: frame2_def)
  from m l2 b w show ?thesis by simp
qed

section \<open>Reference: moving\<close>

lemma Reference_move_voids_source:
  "IsEmpty (snd (Reference_move_ctor indet other))
   \<and> IsEmpty (snd (Reference_move_assign this other))
   \<and> Reference_dtor (snd (Reference_move_ctor indet other)) h = h
   \<and> Reference_dtor (snd (Reference_move_assign this other)) h = h
   \<and> ref_ref (fst (Reference_move_ctor indet other)) = ref_ref other
   \<and> ref_env (fst (Reference_move_ctor indet other)) = ref_env other
   \<and> ref_ref (fst (Reference_move_assign this other)) = ref_ref other
   \<and> ref_env (fst (Reference_move_assign this other)) = ref_env other"
  by (simp add: Reference_move_ctor_def Reference_move_assign_def IsEmpty_def Reference_dtor_def)

lemma Reference_move_flag:
  "ref_suppressDestruct (fst (Reference_move_ctor indet other)) = indet
   \<and> ref_suppressDestruct (fst (Reference_move_assign this other)) = ref_suppressDestruct this"
  by (simp add: Reference_move_ctor_def Reference_move_assign_def)

text \<open>
  C6. A reference with root 1 on which \<^verbatim>\<open>SuppressDestruct()\<close> was called does not release
  the root when destroyed. After move assignment into a default-constructed reference,
  and after move construction where the uninitialised flag happens to read false,
  destroying the target releases the root: the suppression set on the source is lost.
\<close>

theorem Reference_move_loses_suppression:
  "Reference_dtor (SuppressDestruct (Reference_ctor False 7 1)) host_rooted = host_rooted
   \<and> cell (refs host_rooted) 1 = Some (1, 1)
   \<and> cell (refs (Reference_dtor
        (fst (Reference_move_assign Reference_default
                (SuppressDestruct (Reference_ctor False 7 1)))) host_rooted)) 1 = None
   \<and> cell (refs (Reference_dtor
        (fst (Reference_move_ctor False
                (SuppressDestruct (Reference_ctor False 7 1)))) host_rooted)) 1 = None"
  by (simp add: Reference_dtor_def SuppressDestruct_def Reference_ctor_def
      Reference_move_assign_def Reference_move_ctor_def Reference_default_def
      host_rooted_def host0_def napi_delete_reference_def called_def traced_def Let_def
      cell_def release_def)

section \<open>Registration metadata\<close>

lemma Reference_dtor_cbdata: "cbdata (Reference_dtor r h) = cbdata h"
  by (simp add: Reference_dtor_def napi_delete_reference_def called_def traced_def failed_def Let_def)

lemma host_collect_keeps_cbdata: "cbdata (snd (host_collect v h)) = cbdata h"
  by (simp add: host_collect_def FinalizeCallback_def Let_def Reference_dtor_cbdata
      split: option.splits js_value.splits)

text \<open>
  C8. \<^verbatim>\<open>Function::New\<close> allocates the callback metadata; after the host has reclaimed the
  function the metadata is still allocated. The same holds for the metadata of an
  instance method after the host has reclaimed its class.
\<close>

theorem Function_New_leaks_CallbackData:
  "(\<exists>f h1 h2. Function_New 7 3 ''f'' 9 host0 = (Inr f, h1)
      \<and> cell (cbdata host0) 1 = None
      \<and> cell (cbdata h1) 1 = Some \<lparr>cd_callback = 3, cd_setter = nullptr, cd_data = 9\<rparr>
      \<and> cell (heap h1) (val_value f) = Some (JNativeFunction FunctionCallbackWrapper_entry 1)
      \<and> host_collect (val_value f) h1 = (Inr (), h2)
      \<and> cell (heap h2) (val_value f) = None
      \<and> cell (cbdata h2) 1 = Some \<lparr>cd_callback = 3, cd_setter = nullptr, cd_data = 9\<rparr>)
   \<and> (\<exists>d h1 c h2 h3. InstanceMethod ''m'' 4 0 9 host0 = (d, h1)
      \<and> cell (cbdata h1) (desc_data d) = Some \<lparr>cd_callback = 4, cd_setter = nullptr, cd_data = 9\<rparr>
      \<and> DefineClass 7 ''C'' [d] nullptr h1 = (Inr c, h2)
      \<and> host_collect (val_value c) h2 = (Inr (), h3)
      \<and> cell (heap h3) (val_value c) = None
      \<and> cell (cbdata h3) (desc_data d) = Some \<lparr>cd_callback = 4, cd_setter = nullptr, cd_data = 9\<rparr>)"
  by (simp add: Function_New_def InstanceMethod_def DefineClass_def new_CallbackData_def
      napi_create_function_def napi_define_class_def alloc_value_def store_def called_def traced_def
      host_collect_def strongly_rooted_def host0_def cell_def release_def Let_def
      empty_descriptor_def)

section \<open>The boundary to the host\<close>

lemma catch_Error_eq:
  "catch_Error env e h =
     (if pending h = None \<and> err_value e \<noteq> nullptr
      then (called (Abi_throw (err_value e)) (called Abi_is_exception_pending h))
             \<lparr>pending := Some (err_value e)\<rparr>
      else called Abi_is_exception_pending h)"
  by (simp add: catch_Error_def IsExceptionPending_def napi_is_exception_pending_def
      ThrowAsJavaScriptException_def napi_throw_def called_def traced_def Let_def)

lemma catch_Error_reports:
  "pending h = None \<Longrightarrow> err_value e \<noteq> nullptr \<Longrightarrow>
   pending (catch_Error env e h) = Some (err_value e)
   \<and> thrown (trace (catch_Error env e h)) = thrown (trace h) @ [err_value e]"
  by (simp add: catch_Error_eq called_def traced_def thrown_append)

lemma catch_Error_keeps:
  "pending h \<noteq> None \<or> err_value e = nullptr \<Longrightarrow>
   pending (catch_Error env e h) = pending h
   \<and> thrown (trace (catch_Error env e h)) = thrown (trace h)"
  by (auto simp add: catch_Error_eq called_def traced_def thrown_append)

lemma RegisterModule_catches:
  "registerCallback env \<lparr>val_env = env, val_value = exports\<rparr>
      \<lparr>val_env = env, val_value = module\<rparr> h = (Inl (Throw e), h2) \<Longrightarrow>
   RegisterModule env exports module registerCallback h = (Inr (), catch_Error env e h2)"
  by (simp add: RegisterModule_def)

lemma FunctionCallbackWrapper_try_callback:
  "cell (cbdata h) (cb_data fr) = Some cd \<Longrightarrow>
   CallbackInfo_ctor sac env fr h = (Inr info, h1) \<Longrightarrow>
   code (cd_callback cd) info h1 = (Inl (Throw e), h2) \<Longrightarrow>
   FunctionCallbackWrapper_try code sac env fr h = (Inl (Throw e), h2)"
  by (auto simp add: FunctionCallbackWrapper_try_def CallbackInfo_ctor_ok Data_def called_def
      traced_def)

lemma FunctionCallbackWrapper_catches:
  "FunctionCallbackWrapper_try code sac env fr h = (Inl (Throw e), h2) \<Longrightarrow>
   FunctionCallbackWrapper code sac env fr h = (Inr (), catch_Error env e h2)"
  by (simp add: FunctionCallbackWrapper_def)

lemma VoidFunctionCallbackWrapper_catches:
  "VoidFunctionCallbackWrapper_try code sac env fr h = (Inl (Throw e), h2) \<Longrightarrow>
   VoidFunctionCallbackWrapper code sac env fr h = (Inr (), catch_Error env e h2)"
  by (simp add: VoidFunctionCallbackWrapper_def)

lemma ConstructorCallbackWrapper_catches:
  "cb_construct fr \<Longrightarrow>
   ConstructorCallbackWrapper_try ctor sac env fr (called Abi_is_construct_call h)
     = (Inl (Throw e), h2) \<Longrightarrow>
   ConstructorCallbackWrapper ctor indet sac env fr h = (Inr (), catch_Error env e h2)"
  by (simp add: ConstructorCallbackWrapper_def napi_is_construct_call_def)

lemma Static_catches:
  "(StaticVoidMethodCallbackWrapper_try codeV sac env fr h = (Inl (Throw e), h2) \<longrightarrow>
      StaticVoidMethodCallbackWrapper codeV sac env fr h = (Inr (), catch_Error env e h2))
   \<and> (StaticMethodCallbackWrapper_try codeF sac env fr h = (Inl (Throw e), h2) \<longrightarrow>
      StaticMethodCallbackWrapper codeF sac env fr h = (Inr (), catch_Error env e h2)
      \<and> StaticGetterCallbackWrapper codeF sac env fr h = (Inr (), catch_Error env e h2))
   \<and> (StaticSetterCallbackWrapper_try codeS sac env fr h = (Inl (Throw e), h2) \<longrightarrow>
      StaticSetterCallbackWrapper codeS sac env fr h = (Inr (), catch_Error env e h2))"
  by (simp add: StaticVoidMethodCallbackWrapper_def StaticMethodCallbackWrapper_def
      StaticGetterCallbackWrapper_def StaticSetterCallbackWrapper_def)

lemma Instance_catches:
  "(InstanceVoidMethodCallbackWrapper_try codeV sac env fr h = (Inl (Throw e), h2) \<longrightarrow>
      InstanceVoidMethodCallbackWrapper codeV sac env fr h = (Inr (), catch_Error env e h2))
   \<and> (InstanceMethodCallbackWrapper_try codeF sac env fr h = (Inl (Throw e), h2) \<longrightarrow>
      InstanceMethodCallbackWrapper codeF sac env fr h = (Inr (), catch_Error env e h2)
      \<and> InstanceGetterCallbackWrapper codeF sac env fr h = (Inr (), catch_Error env e h2))
   \<and> (InstanceSetterCallbackWrapper_try codeS sac env fr h = (Inl (Throw e), h2) \<longrightarrow>
      InstanceSetterCallbackWrapper codeS sac env fr h = (Inr (), catch_Error env e h2))"
  by (simp add: InstanceVoidMethodCallbackWrapper_def InstanceMethodCallbackWrapper_def
      InstanceGetterCallbackWrapper_def InstanceSetterCallbackWrapper_def)

lemma InstanceMethodCallbackWrapper_try_callback:
  "instance_prologue sac env fr h = (Inr (info, cd, inst), h1) \<Longrightarrow>
   code (cd_callback cd) inst info h1 = (Inl (Throw e), h2) \<Longrightarrow>
   InstanceMethodCallbackWrapper_try code sac env fr h = (Inl (Throw e), h2)"
  by (simp add: InstanceMethodCallbackWrapper_try_def)

text \<open>
  C4, as the code has it. When the user callback of \<^verbatim>\<open>RegisterModule\<close>, of the function
  trampoline or of the instance method trampoline throws a native error \<open>e\<close> and leaves
  state \<open>h2\<close>, the trampoline returns normally in the state the catch block makes of
  \<open>h2\<close>. The catch block hands \<open>e\<close> to \<^verbatim>\<open>napi_throw\<close>, once, exactly when no host exception
  is pending in \<open>h2\<close> and \<open>e\<close> wraps a host value; then that value is the pending exception.
  When an exception is pending already, or \<open>e\<close> wraps no host value, nothing is thrown and
  the pending exception is what it was. The lemmas above give the same for the other
  trampolines.
\<close>

theorem native_Error_at_the_boundary:
  "(registerCallback env \<lparr>val_env = env, val_value = exports\<rparr>
        \<lparr>val_env = env, val_value = module\<rparr> h = (Inl (Throw e), h2) \<longrightarrow>
      RegisterModule env exports module registerCallback h = (Inr (), catch_Error env e h2))
   \<and> (cell (cbdata h) (cb_data fr) = Some cd
        \<and> CallbackInfo_ctor sac env fr h = (Inr info, h1)
        \<and> codeF (cd_callback cd) info h1 = (Inl (Throw e), h2) \<longrightarrow>
      FunctionCallbackWrapper codeF sac env fr h = (Inr (), catch_Error env e h2))
   \<and> (instance_prologue sac env fr h = (Inr (info, cd, inst), h1)
        \<and> codeM (cd_callback cd) inst info h1 = (Inl (Throw e), h2) \<longrightarrow>
      InstanceMethodCallbackWrapper codeM sac env fr h = (Inr (), catch_Error env e h2))
   \<and> (pending h2 = None \<and> err_value e \<noteq> nullptr \<longrightarrow>
        pending (catch_Error env e h2) = Some (err_value e)
        \<and> thrown (trace (catch_Error env e h2)) = thrown (trace h2) @ [err_value e])
   \<and> (pending h2 \<noteq> None \<or> err_value e = nullptr \<longrightarrow>
        pending (catch_Error env e h2) = pending h2
        \<and> thrown (trace (catch_Error env e h2)) = thrown (trace h2))"
proof (intro conjI impI)
  assume "registerCallback env \<lparr>val_env = env, val_value = exports\<rparr>
            \<lparr>val_env = env, val_value = module\<rparr> h = (Inl (Throw e), h2)"
  then show "RegisterModule env exports module registerCallback h = (Inr (), catch_Error env e h2)"
    by (rule RegisterModule_catches)
next
  assume "cell (cbdata h) (cb_data fr) = Some cd
        \<and> CallbackInfo_ctor sac env fr h = (Inr info, h1)
        \<and> codeF (cd_callback cd) info h1 = (Inl (Throw e), h2)"
  then have "FunctionCallbackWrapper_try codeF sac env fr h = (Inl (Throw e), h2)"
    using FunctionCallbackWrapper_try_callback by blast
  then show "FunctionCallbackWrapper codeF sac env fr h = (Inr (), catch_Error env e h2)"
    by (rule FunctionCallbackWrapper_catches)
next
  assume "instance_prologue sac env fr h = (Inr (info, cd, inst), h1)
        \<and> codeM (cd_callback cd) inst info h1 = (Inl (Throw e), h2)"
  then have "InstanceMethodCallbackWrapper_try codeM sac env fr h = (Inl (Throw e), h2)"
    using InstanceMethodCallbackWrapper_try_callback by blast
  then show "InstanceMethodCallbackWrapper codeM sac env fr h = (Inr (), catch_Error env e h2)"
    using Instance_catches by blast
next
  assume "pending h2 = None \<and> err_value e \<noteq> nullptr"
  then show "pending (catch_Error env e h2) = Some (err_value e)"
    and "thrown (trace (catch_Error env e h2)) = thrown (trace h2) @ [err_value e]"
    using catch_Error_reports by blast+
next
  assume "pending h2 \<noteq> None \<or> err_value e = nullptr"
  then show "pending (catch_Error env e h2) = pending h2"
    and "thrown (trace (catch_Error env e h2)) = thrown (trace h2)"
    using catch_Error_keeps by blast+
qed

theorem native_Error_at_the_boundary_witness:
  "register_throws 7 \<lparr>val_env = 7, val_value = 1\<rparr> \<lparr>val_env = 7, val_value = 1\<rparr> host_registered
     = (Inl (Throw \<lparr>err_env = 7, err_value = 2\<rparr>), host_registered)
   \<and> pending host_registered = None
   \<and> fst (RegisterModule 7 1 1 register_throws host_registered) = Inr ()
   \<and> pending (snd (RegisterModule 7 1 1 register_throws host_registered)) = Some 2
   \<and> thrown (trace (snd (RegisterModule 7 1 1 register_throws host_registered))) = [2]
   \<and> fst (FunctionCallbackWrapper throws_after_host_throw 6 7 frame2 host_registered) = Inr ()
   \<and> pending (snd (FunctionCallbackWrapper throws_after_host_throw 6 7 frame2 host_registered))
       = Some 3
   \<and> thrown (trace (snd (FunctionCallbackWrapper throws_after_host_throw 6 7 frame2
                           host_registered))) = []
   \<and> fst (InstanceMethodCallbackWrapper throws_value 6 7 frame2 host_registered) = Inr ()
   \<and> pending (snd (InstanceMethodCallbackWrapper throws_value 6 7 frame2 host_registered))
       = Some 2"
proof -
  let ?e = "\<lparr>err_env = 7, err_value = 2\<rparr>"
  let ?info = "\<lparr>ci_env = 7, ci_this = 1, ci_argc = 2, ci_argv = [11, 12],
                ci_dynamicArgs = False, ci_data = 1\<rparr>"
  let ?h1 = "host_registered
               \<lparr>trace := [Abi_get_cb_this, Abi_get_cb_args_length, Abi_get_cb_args 2,
                           Abi_get_cb_data]\<rparr>"
  let ?cd = "\<lparr>cd_callback = 3, cd_setter = nullptr, cd_data = 9\<rparr>"
  have p0: "pending host_registered = None" and t0: "trace host_registered = []"
    by (simp_all add: host_registered_def host0_def)
  have reg: "register_throws 7 \<lparr>val_env = 7, val_value = 1\<rparr> \<lparr>val_env = 7, val_value = 1\<rparr>
               host_registered = (Inl (Throw ?e), host_registered)"
    by (simp add: register_throws_def)
  note a = native_Error_at_the_boundary
             [where registerCallback = register_throws and env = 7 and exports = 1
                and module = 1 and h = host_registered and e = ?e and ?h2.0 = host_registered]
  from a reg p0 t0
  have A: "fst (RegisterModule 7 1 1 register_throws host_registered) = Inr ()
     \<and> pending (snd (RegisterModule 7 1 1 register_throws host_registered)) = Some 2
     \<and> thrown (trace (snd (RegisterModule 7 1 1 register_throws host_registered))) = [2]"
    by simp
  have cd: "cell (cbdata host_registered) (cb_data frame2) = Some ?cd"
    by (simp add: host_registered_def host0_def frame2_def cell_def)
  have ci: "CallbackInfo_ctor 6 7 frame2 host_registered = (Inr ?info, ?h1)"
    by (simp add: CallbackInfo_ctor_ok frame2_def host_registered_def host0_def called_def
        traced_def)
  have th: "throws_after_host_throw (cd_callback ?cd) ?info ?h1
              = (Inl (Throw ?e), ?h1\<lparr>pending := Some 3\<rparr>)"
    by (simp add: throws_after_host_throw_def)
  note b = native_Error_at_the_boundary
             [where h = host_registered and fr = frame2 and cd = ?cd and sac = 6 and env = 7
                and info = ?info and ?h1.0 = ?h1 and codeF = throws_after_host_throw
                and e = ?e and ?h2.0 = "?h1\<lparr>pending := Some 3\<rparr>"]
  from b cd ci th
  have B: "fst (FunctionCallbackWrapper throws_after_host_throw 6 7 frame2 host_registered) = Inr ()
     \<and> pending (snd (FunctionCallbackWrapper throws_after_host_throw 6 7 frame2 host_registered))
         = Some 3
     \<and> thrown (trace (snd (FunctionCallbackWrapper throws_after_host_throw 6 7 frame2
                             host_registered))) = []"
    by simp
  let ?info9 = "?info\<lparr>ci_data := 9\<rparr>"
  let ?h3 = "host_registered
               \<lparr>trace := [Abi_get_cb_this, Abi_get_cb_args_length, Abi_get_cb_args 2,
                           Abi_get_cb_data, Abi_unwrap 1]\<rparr>"
  have pro: "instance_prologue 6 7 frame2 host_registered = (Inr (?info9, ?cd, 1), ?h3)"
    by (simp add: instance_prologue_def CallbackInfo_ctor_ok Data_def SetData_def This_def
        Unwrap_def napi_unwrap_def called_def traced_def Let_def frame2_def host_registered_def host0_def
        cell_def)
  have tv: "throws_value (cd_callback ?cd) 1 ?info9 ?h3 = (Inl (Throw ?e), ?h3)"
    by (simp add: throws_value_def)
  have p3: "pending ?h3 = None"
    by (simp add: host_registered_def host0_def)
  note c = native_Error_at_the_boundary
             [where h = host_registered and fr = frame2 and cd = ?cd and sac = 6 and env = 7
                and info = ?info9 and ?h1.0 = ?h3 and codeM = throws_value and inst = 1
                and e = ?e and ?h2.0 = ?h3]
  from c pro tv p3
  have C: "fst (InstanceMethodCallbackWrapper throws_value 6 7 frame2 host_registered) = Inr ()
     \<and> pending (snd (InstanceMethodCallbackWrapper throws_value 6 7 frame2 host_registered))
         = Some 2"
    by simp
  from reg p0 A B C show ?thesis by simp
qed

text \<open>
  C4 as stated fails: a callback that throws an error without host value while no host
  exception is pending is caught, and nothing is thrown to the host.
\<close>

theorem conversion_iff_not_pending_counterexample:
  "pending host_registered = None
   \<and> FunctionCallbackWrapper_try throws_empty 6 7 frame2 host_registered
       = (Inl (Throw \<lparr>err_env = nullptr, err_value = nullptr\<rparr>),
          snd (CallbackInfo_ctor 6 7 frame2 host_registered))
   \<and> pending (snd (CallbackInfo_ctor 6 7 frame2 host_registered)) = None
   \<and> fst (FunctionCallbackWrapper throws_empty 6 7 frame2 host_registered) = Inr ()
   \<and> pending (snd (FunctionCallbackWrapper throws_empty 6 7 frame2 host_registered)) = None
   \<and> thrown (trace (snd (FunctionCallbackWrapper throws_empty 6 7 frame2 host_registered))) = []"
  by (simp add: FunctionCallbackWrapper_def FunctionCallbackWrapper_try_def CallbackInfo_ctor_ok
      Data_def throws_empty_def frame2_def host_registered_def host0_def cell_def catch_Error_eq
      called_def traced_def)

section \<open>Constructing wrapped instances\<close>

lemma Constructor_not_construct:
  "\<not> cb_construct fr \<Longrightarrow>
   ConstructorCallbackWrapper ctor indet sac env fr h =
     (Inr (),
      (called (Abi_throw_type_error
                 (''Class constructors cannot be invoked without '' @ [CHR 0x27]
                    @ ''new'' @ [CHR 0x27]))
         (called Abi_is_construct_call h))
        \<lparr>heap := heap h @ [Some (JError TypeError
                   (''Class constructors cannot be invoked without '' @ [CHR 0x27]
                      @ ''new'' @ [CHR 0x27]))],
         pending := Some (Suc (length (heap h)))\<rparr>)"
  by (simp add: ConstructorCallbackWrapper_def napi_is_construct_call_def
      napi_throw_type_error_def alloc_value_def store_def called_def traced_def)

lemma This_receiver:
  "ci_this info \<noteq> nullptr \<Longrightarrow>
   This info h = (Inr \<lparr>val_env = ci_env info, val_value = ci_this info\<rparr>, h)"
  by (simp add: This_def)

lemma napi_wrap_fresh:
  "cell (heap h) obj = Some (JObject nullptr) \<Longrightarrow>
   napi_wrap env obj p h =
     (napi_ok, Suc (length (refs h)),
      (called (Abi_wrap obj p) h)
        \<lparr>heap := assign (heap h) obj (JObject p), refs := refs h @ [Some (obj, 0)]\<rparr>)"
  by (simp add: napi_wrap_def called_def traced_def Let_def store_def)

lemma Unwrap_wrapped:
  "cell (heap h) obj = Some (JObject p) \<Longrightarrow> p \<noteq> nullptr \<Longrightarrow>
   Unwrap \<lparr>val_env = env, val_value = obj\<rparr> h = (Inr p, called (Abi_unwrap obj) h)"
  by (simp add: Unwrap_def napi_unwrap_def called_def traced_def Let_def)

lemma new_T_nonnull: "new_T ctor info h = (Inr p, h') \<Longrightarrow> p \<noteq> nullptr"
  by (auto simp add: new_T_def store_def Let_def split: prod.splits sum.splits)

lemma Constructor_construct:
  assumes c: "cb_construct fr"
    and i: "CallbackInfo_ctor sac env fr (called Abi_is_construct_call h) = (Inr info, h1)"
    and n: "new_T ctor info h1 = (Inr p, h2)"
    and o: "cell (heap h2) (cb_this fr) = Some (JObject nullptr)"
    and a: "cell (instances h2) p = Some r0"
  shows "\<exists>h'. ConstructorCallbackWrapper ctor indet sac env fr h = (Inr (), h')
     \<and> cell (heap h') (cb_this fr) = Some (JObject p)
     \<and> Unwrap \<lparr>val_env = env, val_value = cb_this fr\<rparr> h'
         = (Inr p, called (Abi_unwrap (cb_this fr)) h')
     \<and> return_slot h' = Some (cb_this fr)
     \<and> cell (instances h') p =
         Some \<lparr>ref_env = env, ref_ref = Suc (length (refs h2)),
               ref_suppressDestruct = ref_suppressDestruct r0\<rparr>
     \<and> cell (refs h') (Suc (length (refs h2))) = Some (cb_this fr, 0)"
proof -
  from o have t: "cb_this fr \<noteq> nullptr"
    using cell_Some_bounds by fastforce
  from i have info: "ci_this info = cb_this fr" "ci_env info = env"
    by (auto simp add: CallbackInfo_ctor_ok)
  have body: "ConstructorCallbackWrapper_try ctor sac env fr (called Abi_is_construct_call h)
               = (Inr (p, cb_this fr), h2)"
    using i n t info by (simp add: ConstructorCallbackWrapper_try_def This_receiver)
  let ?h3 = "(called (Abi_wrap (cb_this fr) p) h2)
               \<lparr>heap := assign (heap h2) (cb_this fr) (JObject p),
                refs := refs h2 @ [Some (cb_this fr, 0)]\<rparr>"
  let ?r = "\<lparr>ref_env = env, ref_ref = Suc (length (refs h2)),
             ref_suppressDestruct = ref_suppressDestruct r0\<rparr>"
  let ?h4 = "?h3\<lparr>instances := assign (instances h2) p ?r\<rparr>"
  let ?h' = "(called (Abi_set_return_value (cb_this fr)) ?h4)\<lparr>return_slot := Some (cb_this fr)\<rparr>"
  have w: "napi_wrap env (cb_this fr) p h2 = (napi_ok, Suc (length (refs h2)), ?h3)"
    using napi_wrap_fresh [OF o] .
  have a3: "cell (instances ?h3) p = Some r0"
    using a by (simp add: called_def traced_def)
  have mv: "Reference_move_assign r0 (Reference_ctor indet env (Suc (length (refs h2))))
              = (?r, \<lparr>ref_env = nullptr, ref_ref = nullptr, ref_suppressDestruct = indet\<rparr>)"
    by (cases r0) (simp add: Reference_move_assign_def Reference_ctor_def)
  have run: "ConstructorCallbackWrapper ctor indet sac env fr h = (Inr (), ?h')"
    using c body w a3 mv
    by (simp add: ConstructorCallbackWrapper_def napi_is_construct_call_def
        Reference_dtor_def napi_set_return_value_def called_def traced_def)
  have hp: "cell (heap ?h') (cb_this fr) = Some (JObject p)"
    using o by (simp add: called_def traced_def cell_assign_same)
  have pn: "p \<noteq> nullptr"
    using n by (rule new_T_nonnull)
  have u: "Unwrap \<lparr>val_env = env, val_value = cb_this fr\<rparr> ?h'
             = (Inr p, called (Abi_unwrap (cb_this fr)) ?h')"
    using Unwrap_wrapped [OF hp pn] .
  have ins: "cell (instances ?h') p = Some ?r"
    using a by (simp add: called_def traced_def cell_assign_same)
  have rf: "cell (refs ?h') (Suc (length (refs h2))) = Some (cb_this fr, 0)"
    by (simp add: called_def traced_def cell_store_new)
  have rs: "return_slot ?h' = Some (cb_this fr)"
    by simp
  from run hp u rs ins rf show ?thesis by blast
qed

text \<open>
  When the host refuses the attachment because the receiver already carries a native
  pointer, the trampoline returns at its guard and changes nothing further.
\<close>

lemma Constructor_wrap_refused:
  assumes c: "cb_construct fr"
    and i: "CallbackInfo_ctor sac env fr (called Abi_is_construct_call h) = (Inr info, h1)"
    and n: "new_T ctor info h1 = (Inr p, h2)"
    and o: "cell (heap h2) (cb_this fr) = Some (JObject q)"
    and q: "q \<noteq> nullptr"
  shows "\<exists>h'. ConstructorCallbackWrapper ctor indet sac env fr h = (Inr (), h')
     \<and> heap h' = heap h2 \<and> instances h' = instances h2 \<and> refs h' = refs h2
     \<and> return_slot h' = return_slot h2 \<and> pending h' = pending h2"
proof -
  from o have t: "cb_this fr \<noteq> nullptr"
    using cell_Some_bounds by fastforce
  from i have info: "ci_this info = cb_this fr" "ci_env info = env"
    by (auto simp add: CallbackInfo_ctor_ok)
  have body: "ConstructorCallbackWrapper_try ctor sac env fr (called Abi_is_construct_call h)
               = (Inr (p, cb_this fr), h2)"
    using i n t info by (simp add: ConstructorCallbackWrapper_try_def This_receiver)
  have w: "napi_wrap env (cb_this fr) p h2 =
             (napi_invalid_arg, nullptr,
              failed napi_invalid_arg (called (Abi_wrap (cb_this fr) p) h2))"
    using o q by (simp add: napi_wrap_def called_def traced_def Let_def)
  show ?thesis
    using c body w
    by (simp add: ConstructorCallbackWrapper_def napi_is_construct_call_def called_def traced_def
        failed_def)
qed

text \<open>
  C1. On a frame that is not a construct call the constructor trampoline leaves a
  type error with the message "Class constructors cannot be invoked without 'new'"
  pending and returns; the native instances, the roots and every existing cell of the
  host heap are as before, and the outcome is the same for any user constructor, which
  is not run. On a construct call whose native constructor returns instance \<open>p\<close>, with the
  receiver an object that has nothing attached and the instance still allocated, the
  trampoline attaches \<open>p\<close> to the receiver, stores the weak root in the instance, puts
  the receiver in the return slot, and \<^verbatim>\<open>Unwrap\<close> of the receiver returns \<open>p\<close>.
\<close>

theorem ConstructorCallbackWrapper_new_or_type_error:
  "(\<not> cb_construct fr \<longrightarrow>
      (\<exists>h' x. ConstructorCallbackWrapper ctor indet sac env fr h = (Inr (), h')
         \<and> pending h' = Some x
         \<and> cell (heap h') x =
             Some (JError TypeError
                    (''Class constructors cannot be invoked without '' @ [CHR 0x27]
                       @ ''new'' @ [CHR 0x27]))
         \<and> instances h' = instances h \<and> refs h' = refs h
         \<and> (\<forall>v. v \<le> length (heap h) \<longrightarrow> cell (heap h') v = cell (heap h) v)
         \<and> ConstructorCallbackWrapper ctor' indet sac env fr h = (Inr (), h')))
   \<and> (cb_construct fr
        \<and> CallbackInfo_ctor sac env fr (called Abi_is_construct_call h) = (Inr info, h1)
        \<and> new_T ctor info h1 = (Inr p, h2)
        \<and> cell (heap h2) (cb_this fr) = Some (JObject nullptr)
        \<and> cell (instances h2) p = Some r0 \<longrightarrow>
      (\<exists>h'. ConstructorCallbackWrapper ctor indet sac env fr h = (Inr (), h')
         \<and> cell (heap h') (cb_this fr) = Some (JObject p)
         \<and> Unwrap \<lparr>val_env = env, val_value = cb_this fr\<rparr> h'
             = (Inr p, called (Abi_unwrap (cb_this fr)) h')
         \<and> return_slot h' = Some (cb_this fr)
         \<and> cell (instances h') p =
             Some \<lparr>ref_env = env, ref_ref = Suc (length (refs h2)),
                   ref_suppressDestruct = ref_suppressDestruct r0\<rparr>
         \<and> cell (refs h') (Suc (length (refs h2))) = Some (cb_this fr, 0)))"
proof (intro conjI impI)
  assume n: "\<not> cb_construct fr"
  show "\<exists>h' x. ConstructorCallbackWrapper ctor indet sac env fr h = (Inr (), h')
         \<and> pending h' = Some x
         \<and> cell (heap h') x =
             Some (JError TypeError
                    (''Class constructors cannot be invoked without '' @ [CHR 0x27]
                       @ ''new'' @ [CHR 0x27]))
         \<and> instances h' = instances h \<and> refs h' = refs h
         \<and> (\<forall>v. v \<le> length (heap h) \<longrightarrow> cell (heap h') v = cell (heap h) v)
         \<and> ConstructorCallbackWrapper ctor' indet sac env fr h = (Inr (), h')"
    by (simp add: Constructor_not_construct [OF n] called_def traced_def cell_store_new cell_store_old)
next
  assume "cb_construct fr
        \<and> CallbackInfo_ctor sac env fr (called Abi_is_construct_call h) = (Inr info, h1)
        \<and> new_T ctor info h1 = (Inr p, h2)
        \<and> cell (heap h2) (cb_this fr) = Some (JObject nullptr)
        \<and> cell (instances h2) p = Some r0"
  then show "\<exists>h'. ConstructorCallbackWrapper ctor indet sac env fr h = (Inr (), h')
         \<and> cell (heap h') (cb_this fr) = Some (JObject p)
         \<and> Unwrap \<lparr>val_env = env, val_value = cb_this fr\<rparr> h'
             = (Inr p, called (Abi_unwrap (cb_this fr)) h')
         \<and> return_slot h' = Some (cb_this fr)
         \<and> cell (instances h') p =
             Some \<lparr>ref_env = env, ref_ref = Suc (length (refs h2)),
                   ref_suppressDestruct = ref_suppressDestruct r0\<rparr>
         \<and> cell (refs h') (Suc (length (refs h2))) = Some (cb_this fr, 0)"
    using Constructor_construct [of fr sac env h info h1 ctor p h2 r0 indet] by blast
qed

theorem ConstructorCallbackWrapper_new_or_type_error_witness:
  "\<not> cb_construct frame2
   \<and> fst (ConstructorCallbackWrapper ctor_plain False 6 7 frame2 host_registered) = Inr ()
   \<and> pending (snd (ConstructorCallbackWrapper ctor_plain False 6 7 frame2 host_registered)) = Some 4
   \<and> instances (snd (ConstructorCallbackWrapper ctor_plain False 6 7 frame2 host_registered))
       = instances host_registered
   \<and> cb_construct frame_new
   \<and> cell (heap host_fresh) (cb_this frame_new) = Some (JObject nullptr)
   \<and> fst (ConstructorCallbackWrapper ctor_plain False 6 7 frame_new host_fresh) = Inr ()
   \<and> cell (heap (snd (ConstructorCallbackWrapper ctor_plain False 6 7 frame_new host_fresh))) 1
       = Some (JObject 1)
   \<and> fst (Unwrap \<lparr>val_env = 7, val_value = 1\<rparr>
            (snd (ConstructorCallbackWrapper ctor_plain False 6 7 frame_new host_fresh))) = Inr 1"
proof -
  let ?h0 = "called Abi_is_construct_call host_fresh"
  let ?info = "\<lparr>ci_env = 7, ci_this = 1, ci_argc = 0, ci_argv = [], ci_dynamicArgs = False,
                ci_data = nullptr\<rparr>"
  let ?h1 = "?h0\<lparr>trace := trace ?h0 @ [Abi_get_cb_this, Abi_get_cb_args_length, Abi_get_cb_data]\<rparr>"
  let ?h2 = "?h1\<lparr>instances := [Some Reference_default]\<rparr>"
  have a: "\<not> cb_construct frame2"
    by (simp add: frame2_def)
  from a ConstructorCallbackWrapper_new_or_type_error
         [of frame2 ctor_plain False 6 7 host_registered ctor_plain]
  obtain h' x where n: "ConstructorCallbackWrapper ctor_plain False 6 7 frame2 host_registered
                          = (Inr (), h')"
    and "pending h' = Some x" and ih: "instances h' = instances host_registered"
    by blast
  have px: "pending (snd (ConstructorCallbackWrapper ctor_plain False 6 7 frame2 host_registered))
              = Some 4"
    by (simp add: Constructor_not_construct [OF a] host_registered_def host0_def)
  have b: "cb_construct frame_new"
    by (simp add: frame_new_def)
  have i: "CallbackInfo_ctor 6 7 frame_new ?h0 = (Inr ?info, ?h1)"
    by (simp add: CallbackInfo_ctor_ok frame_new_def called_def traced_def host_fresh_def
        host0_def)
  have t: "new_T ctor_plain ?info ?h1 = (Inr 1, ?h2)"
    by (simp add: new_T_def ctor_plain_def store_def called_def traced_def host_fresh_def host0_def)
  have o: "cell (heap ?h2) (cb_this frame_new) = Some (JObject nullptr)"
    by (simp add: called_def traced_def host_fresh_def host0_def frame_new_def cell_def)
  have o': "cell (heap host_fresh) (cb_this frame_new) = Some (JObject nullptr)"
    by (simp add: host_fresh_def host0_def frame_new_def cell_def)
  have c: "cell (instances ?h2) 1 = Some Reference_default"
    by (simp add: cell_def)
  from b i t o c ConstructorCallbackWrapper_new_or_type_error
         [of frame_new ctor_plain False 6 7 host_fresh ctor_plain ?info ?h1 1 ?h2 Reference_default]
  obtain k where "ConstructorCallbackWrapper ctor_plain False 6 7 frame_new host_fresh = (Inr (), k)"
    and "cell (heap k) (cb_this frame_new) = Some (JObject 1)"
    and "Unwrap \<lparr>val_env = 7, val_value = cb_this frame_new\<rparr> k
           = (Inr 1, called (Abi_unwrap (cb_this frame_new)) k)"
    by blast
  with a n ih px b o' show ?thesis
    by (simp add: frame_new_def)
qed

section \<open>Completing asynchronous work\<close>

lemma Error_New_frame:
  "invocations (trace (snd (Error_New env h))) = invocations (trace h)
   \<and> (\<exists>ys. heap (snd (Error_New env h)) = heap h @ ys)"
proof (cases "pending h")
  case None
  then show ?thesis
    by (simp add: Error_New_def IsExceptionPending_def napi_is_exception_pending_def
        napi_get_last_error_info_def napi_create_string_utf8_def create_error_fn_def
        alloc_value_def store_def called_def traced_def Let_def cell_store_new
        invocations_append)
next
  case (Some x)
  then show ?thesis
    by (simp add: Error_New_pending called_def traced_def invocations_append)
qed

lemma napi_make_callback_frame:
  "invocations (trace (snd (snd (napi_make_callback env recv f args h))))
     = invocations (trace h) @ [(recv, f, args)]
   \<and> heap (snd (snd (napi_make_callback env recv f args h))) = heap h"
  by (simp add: napi_make_callback_def Let_def called_def traced_def failed_def
      invocations_append split: option.splits js_value.splits js_outcome.splits)

lemma Function_MakeCallback_invokes:
  "invocations (trace (snd (Function_MakeCallback fv recv args h)))
     = invocations (trace h) @ [(recv, val_value fv, args)]
   \<and> (\<exists>ys. heap (snd (Function_MakeCallback fv recv args h)) = heap h @ ys)"
proof -
  obtain st v k where m: "napi_make_callback (val_env fv) recv (val_value fv) args h = (st, v, k)"
    by (cases "napi_make_callback (val_env fv) recv (val_value fv) args h") auto
  from napi_make_callback_frame [of "val_env fv" recv "val_value fv" args h] m
  have k: "invocations (trace k) = invocations (trace h) @ [(recv, val_value fv, args)]"
    "heap k = heap h"
    by simp_all
  show ?thesis
  proof (cases "st = napi_ok")
    case True
    with m k show ?thesis
      by (simp add: Function_MakeCallback_def)
  next
    case False
    with m k Error_New_frame [of "val_env fv" k] show ?thesis
      by (auto simp add: Function_MakeCallback_def throw_Error_New_def split: prod.splits)
  qed
qed

lemma FunctionReference_MakeCallback_invokes:
  assumes r: "cell (refs h) (ref_ref r) = Some (f, c)"
  shows "invocations (trace (snd (FunctionReference_MakeCallback r recv args h)))
           = invocations (trace h) @ [(recv, f, args)]
         \<and> (\<exists>ys. heap (snd (FunctionReference_MakeCallback r recv args h)) = heap h @ ys)"
proof -
  let ?h1 = "(called Abi_open_escapable_handle_scope h)\<lparr>scopes := Suc (scopes h)\<rparr>"
  let ?h2 = "called (Abi_get_reference_value (ref_ref r)) ?h1"
  let ?fv = "\<lparr>val_env = ref_env r, val_value = f\<rparr>"
  have r1: "cell (refs ?h1) (ref_ref r) = Some (f, c)"
    using r by (simp add: called_def traced_def)
  have v: "Reference_Value r ?h1 = (Inr ?fv, ?h2)"
    using Value_valid [OF r1] .
  have h2: "invocations (trace ?h2) = invocations (trace h)" "heap ?h2 = heap h"
    by (simp_all add: called_def traced_def invocations_append)
  obtain x k where m: "Function_MakeCallback ?fv recv args ?h2 = (x, k)"
    by (cases "Function_MakeCallback ?fv recv args ?h2") auto
  from Function_MakeCallback_invokes [of ?fv recv args ?h2] m h2
  have k: "invocations (trace k) = invocations (trace h) @ [(recv, f, args)]"
    "\<exists>ys. heap k = heap h @ ys"
    by simp_all
  have dt: "invocations (trace (EscapableHandleScope_dtor env s j)) = invocations (trace j)
              \<and> heap (EscapableHandleScope_dtor env s j) = heap j" for env s j
    by (simp add: EscapableHandleScope_dtor_def napi_close_escapable_handle_scope_def
        called_def traced_def failed_def Let_def invocations_append)
  have es: "invocations (trace (snd (Escape env s u j))) = invocations (trace j)
              \<and> heap (snd (Escape env s u j)) = heap j" for env s u j
    by (simp add: Escape_def napi_escape_handle_def called_def traced_def invocations_append)
  have run: "snd (FunctionReference_MakeCallback r recv args h) =
               EscapableHandleScope_dtor (ref_env r) (Suc (scopes h))
                 (case x of Inl a \<Rightarrow> k
                  | Inr u \<Rightarrow> snd (Escape (ref_env r) (Suc (scopes h)) (val_value u) k))"
    using v m
    by (simp add: FunctionReference_MakeCallback_def EscapableHandleScope_ctor_def
        napi_open_escapable_handle_scope_def split: sum.splits prod.splits)
  show ?thesis
  proof (cases x)
    case (Inl a)
    with run k dt show ?thesis by simp
  next
    case (Inr u)
    with run k dt es show ?thesis by simp
  qed
qed

lemma Env_Global_fresh:
  "Env_Global env h =
     (Inr \<lparr>val_env = env, val_value = Suc (length (heap h))\<rparr>,
      (called Abi_get_global h)\<lparr>heap := heap h @ [Some JGlobal]\<rparr>)"
  by (simp add: Env_Global_def napi_get_global_def alloc_value_def store_def called_def
      traced_def)

lemma Error_New_message_fresh:
  "Error_New_message env msg h =
     (Inr \<lparr>err_env = env, err_value = Suc (Suc (length (heap h)))\<rparr>,
      (called (Abi_create_error GenericError (Suc (length (heap h))))
         (called (Abi_create_string_utf8 msg) h))
        \<lparr>heap := heap h @ [Some (JString msg), Some (JError GenericError msg)]\<rparr>)"
  by (simp add: Error_New_message_def Error_New_kind_def napi_create_string_utf8_def
      create_error_fn_def alloc_value_def store_def called_def traced_def Let_def
      cell_store_new)

lemma OnOK_invokes:
  assumes r: "cell (refs h) (ref_ref (aw_callback w)) = Some (f, c)"
  shows "invocations (trace (snd (OnOK w h)))
           = invocations (trace h) @ [(Suc (length (heap h)), f, [])]
         \<and> (\<exists>ys. heap (snd (OnOK w h)) = heap h @ Some JGlobal # ys)"
proof -
  let ?h1 = "(called Abi_get_global h)\<lparr>heap := heap h @ [Some JGlobal]\<rparr>"
  have r1: "cell (refs ?h1) (ref_ref (aw_callback w)) = Some (f, c)"
    using r by (simp add: called_def traced_def)
  have run: "snd (OnOK w h) =
               snd (FunctionReference_MakeCallback (aw_callback w) (Suc (length (heap h))) [] ?h1)"
    by (simp add: OnOK_def Env_Global_fresh split: prod.splits sum.splits)
  from FunctionReference_MakeCallback_invokes [OF r1, of "Suc (length (heap h))" "[]"] run
  show ?thesis
    by (auto simp add: called_def traced_def invocations_append)
qed

text \<open>The failure hook under either order of evaluation: first with the receiver first.\<close>

lemma OnError_receiver_first:
  assumes r: "cell (refs h) (ref_ref (aw_callback w)) = Some (f, c)"
  shows "invocations (trace (snd (OnError True w h)))
           = invocations (trace h)
               @ [(Suc (length (heap h)), f, [Suc (Suc (Suc (length (heap h))))])]
         \<and> (\<exists>ys. heap (snd (OnError True w h)) =
                   heap h @ Some JGlobal # Some (JString (aw_errmsg w))
                              # Some (JError GenericError (aw_errmsg w)) # ys)"
proof -
  let ?h1 = "(called Abi_get_global h)\<lparr>heap := heap h @ [Some JGlobal]\<rparr>"
  let ?h2 = "(called (Abi_create_error GenericError (Suc (length (heap ?h1))))
               (called (Abi_create_string_utf8 (aw_errmsg w)) ?h1))
              \<lparr>heap := heap ?h1 @ [Some (JString (aw_errmsg w)),
                                    Some (JError GenericError (aw_errmsg w))]\<rparr>"
  have r2: "cell (refs ?h2) (ref_ref (aw_callback w)) = Some (f, c)"
    using r by (simp add: called_def traced_def)
  have run: "snd (OnError True w h) =
               snd (FunctionReference_MakeCallback (aw_callback w) (Suc (length (heap h)))
                      [Suc (Suc (Suc (length (heap h))))] ?h2)"
    by (simp add: OnError_def Env_Global_fresh Error_New_message_fresh called_def traced_def
        split: prod.splits sum.splits)
  from FunctionReference_MakeCallback_invokes
         [OF r2, of "Suc (length (heap h))" "[Suc (Suc (Suc (length (heap h))))]"] run
  show ?thesis
    by (auto simp add: called_def traced_def invocations_append)
qed

lemma OnError_argument_first:
  assumes r: "cell (refs h) (ref_ref (aw_callback w)) = Some (f, c)"
  shows "invocations (trace (snd (OnError False w h)))
           = invocations (trace h)
               @ [(Suc (Suc (Suc (length (heap h)))), f, [Suc (Suc (length (heap h)))])]
         \<and> (\<exists>ys. heap (snd (OnError False w h)) =
                   heap h @ Some (JString (aw_errmsg w))
                              # Some (JError GenericError (aw_errmsg w)) # Some JGlobal # ys)"
proof -
  let ?h1 = "(called (Abi_create_error GenericError (Suc (length (heap h))))
               (called (Abi_create_string_utf8 (aw_errmsg w)) h))
              \<lparr>heap := heap h @ [Some (JString (aw_errmsg w)),
                                  Some (JError GenericError (aw_errmsg w))]\<rparr>"
  let ?h2 = "(called Abi_get_global ?h1)\<lparr>heap := heap ?h1 @ [Some JGlobal]\<rparr>"
  have r2: "cell (refs ?h2) (ref_ref (aw_callback w)) = Some (f, c)"
    using r by (simp add: called_def traced_def)
  have run: "snd (OnError False w h) =
               snd (FunctionReference_MakeCallback (aw_callback w)
                      (Suc (Suc (Suc (length (heap h)))))
                      [Suc (Suc (length (heap h)))] ?h2)"
    by (simp add: OnError_def Env_Global_fresh Error_New_message_fresh called_def traced_def
        split: prod.splits sum.splits)
  from FunctionReference_MakeCallback_invokes
         [OF r2, of "Suc (Suc (Suc (length (heap h))))" "[Suc (Suc (length (heap h)))]"] run
  show ?thesis
    by (auto simp add: called_def traced_def invocations_append)
qed

lemma OnError_invokes:
  assumes r: "cell (refs h) (ref_ref (aw_callback w)) = Some (f, c)"
  shows "\<exists>g e. invocations (trace (snd (OnError receiver_first w h)))
                  = invocations (trace h) @ [(g, f, [e])]
           \<and> length (heap h) < g \<and> length (heap h) < e
           \<and> (\<exists>ys. heap (snd (OnError receiver_first w h)) = heap h @ ys
                  \<and> cell (heap h @ ys) g = Some JGlobal
                  \<and> cell (heap h @ ys) e = Some (JError GenericError (aw_errmsg w)))"
proof (cases receiver_first)
  case True
  from OnError_receiver_first [OF r] obtain ys where
    i: "invocations (trace (snd (OnError True w h)))
          = invocations (trace h)
              @ [(Suc (length (heap h)), f, [Suc (Suc (Suc (length (heap h))))])]"
    and y: "heap (snd (OnError True w h)) =
              heap h @ Some JGlobal # Some (JString (aw_errmsg w))
                         # Some (JError GenericError (aw_errmsg w)) # ys"
    by blast
  have "cell (heap h @ Some JGlobal # Some (JString (aw_errmsg w))
                # Some (JError GenericError (aw_errmsg w)) # ys) (Suc (length (heap h)))
          = Some JGlobal"
    and "cell (heap h @ Some JGlobal # Some (JString (aw_errmsg w))
                # Some (JError GenericError (aw_errmsg w)) # ys)
           (Suc (Suc (Suc (length (heap h))))) = Some (JError GenericError (aw_errmsg w))"
    by (simp_all add: cell_def nth_append)
  with True i y show ?thesis
    by (intro exI [of _ "Suc (length (heap h))"] exI [of _ "Suc (Suc (Suc (length (heap h))))"])
       auto
next
  case False
  from OnError_argument_first [OF r] obtain ys where
    i: "invocations (trace (snd (OnError False w h)))
          = invocations (trace h)
              @ [(Suc (Suc (Suc (length (heap h)))), f, [Suc (Suc (length (heap h)))])]"
    and y: "heap (snd (OnError False w h)) =
              heap h @ Some (JString (aw_errmsg w))
                         # Some (JError GenericError (aw_errmsg w)) # Some JGlobal # ys"
    by blast
  have "cell (heap h @ Some (JString (aw_errmsg w))
                # Some (JError GenericError (aw_errmsg w)) # Some JGlobal # ys)
           (Suc (Suc (Suc (length (heap h))))) = Some JGlobal"
    and "cell (heap h @ Some (JString (aw_errmsg w))
                # Some (JError GenericError (aw_errmsg w)) # Some JGlobal # ys)
           (Suc (Suc (length (heap h)))) = Some (JError GenericError (aw_errmsg w))"
    by (simp_all add: cell_def nth_append)
  with False i y show ?thesis
    by (intro exI [of _ "Suc (Suc (Suc (length (heap h))))"] exI [of _ "Suc (Suc (length (heap h)))"])
       auto
qed

lemma WorkComplete_branches:
  "snd (WorkComplete receiver_first w h) =
     HandleScope_dtor (aw_env w) (Suc (scopes h))
       (snd ((if aw_errmsg w = [] then OnOK w else OnError receiver_first w)
              ((called Abi_open_handle_scope h)\<lparr>scopes := Suc (scopes h)\<rparr>)))"
  by (simp add: WorkComplete_def HandleScope_ctor_def napi_open_handle_scope_def
      split: prod.splits)

lemma HandleScope_dtor_frame:
  "invocations (trace (HandleScope_dtor env s k)) = invocations (trace k)
   \<and> heap (HandleScope_dtor env s k) = heap k"
  by (simp add: HandleScope_dtor_def napi_close_handle_scope_def called_def traced_def
      failed_def Let_def invocations_append)

text \<open>
  C2. For a worker whose callback reference holds a root with referent \<open>f\<close>, and under
  either order in which the compiler evaluates the arguments of the call in
  \<^verbatim>\<open>OnError\<close>, the completion hook has the host call \<open>f\<close> exactly once, with a handle of
  the global object as receiver: with no argument when the stored error message is
  empty, and otherwise with exactly one argument, a handle that did not exist before and
  names an error object of the generic kind whose message is the stored string.
\<close>

theorem WorkComplete_invokes_callback:
  assumes r: "cell (refs h) (ref_ref (aw_callback w)) = Some (f, c)"
  shows "(aw_errmsg w = [] \<longrightarrow>
            (\<exists>g. invocations (trace (snd (OnWorkComplete receiver_first w h)))
                    = invocations (trace h) @ [(g, f, [])]
               \<and> cell (heap (snd (OnWorkComplete receiver_first w h))) g = Some JGlobal))
       \<and> (aw_errmsg w \<noteq> [] \<longrightarrow>
            (\<exists>g e. invocations (trace (snd (OnWorkComplete receiver_first w h)))
                      = invocations (trace h) @ [(g, f, [e])]
               \<and> cell (heap (snd (OnWorkComplete receiver_first w h))) g = Some JGlobal
               \<and> cell (heap h) e = None
               \<and> cell (heap (snd (OnWorkComplete receiver_first w h))) e
                   = Some (JError GenericError (aw_errmsg w))))"
proof -
  let ?h1 = "(called Abi_open_handle_scope h)\<lparr>scopes := Suc (scopes h)\<rparr>"
  have r1: "cell (refs ?h1) (ref_ref (aw_callback w)) = Some (f, c)"
    using r by (simp add: called_def traced_def)
  have t1: "invocations (trace ?h1) = invocations (trace h)" and p1: "heap ?h1 = heap h"
    by (simp_all add: called_def traced_def invocations_append)
  show ?thesis
  proof (cases "aw_errmsg w = []")
    case True
    have g: "cell (heap h @ Some JGlobal # ys) (Suc (length (heap h))) = Some JGlobal" for ys
      by (simp add: cell_def nth_append)
    from OnOK_invokes [OF r1] True t1 p1 g show ?thesis
      by (auto simp add: OnWorkComplete_def WorkComplete_branches HandleScope_dtor_frame)
  next
    case False
    from OnError_invokes [OF r1, of receiver_first] obtain g e ys where
      i: "invocations (trace (snd (OnError receiver_first w ?h1)))
            = invocations (trace ?h1) @ [(g, f, [e])]"
      and e: "length (heap ?h1) < e"
      and y: "heap (snd (OnError receiver_first w ?h1)) = heap ?h1 @ ys"
      and cg: "cell (heap ?h1 @ ys) g = Some JGlobal"
      and ce: "cell (heap ?h1 @ ys) e = Some (JError GenericError (aw_errmsg w))"
      by blast
    from e p1 have "cell (heap h) e = None"
      by (simp add: cell_beyond)
    with False i y cg ce t1 p1 show ?thesis
      by (auto simp add: OnWorkComplete_def WorkComplete_branches HandleScope_dtor_frame)
  qed
qed

theorem WorkComplete_invokes_callback_witness:
  "cell (refs host_worker) (ref_ref (aw_callback worker_ok)) = Some (1, 1)
   \<and> cell (refs host_worker) (ref_ref (aw_callback worker_boom)) = Some (1, 1)
   \<and> aw_errmsg worker_ok = [] \<and> aw_errmsg worker_boom = ''boom''
   \<and> (\<exists>g. invocations (trace (snd (OnWorkComplete True worker_ok host_worker))) = [(g, 1, [])])
   \<and> (\<exists>g e. invocations (trace (snd (OnWorkComplete True worker_boom host_worker)))
                = [(g, 1, [e])]
         \<and> cell (heap (snd (OnWorkComplete True worker_boom host_worker))) e
             = Some (JError GenericError ''boom''))
   \<and> (\<exists>g e. invocations (trace (snd (OnWorkComplete False worker_boom host_worker)))
                = [(g, 1, [e])]
         \<and> cell (heap (snd (OnWorkComplete False worker_boom host_worker))) e
             = Some (JError GenericError ''boom''))"
proof -
  have r: "cell (refs host_worker) (ref_ref (aw_callback worker_ok)) = Some (1, 1)"
    by (simp add: host_worker_def host0_def worker_ok_def Reference_ctor_def cell_def)
  have r': "cell (refs host_worker) (ref_ref (aw_callback worker_boom)) = Some (1, 1)"
    by (simp add: host_worker_def host0_def worker_boom_def SetErrorMessage_def worker_ok_def
        Reference_ctor_def cell_def)
  have t: "trace host_worker = []"
    by (simp add: host_worker_def host0_def)
  have m: "aw_errmsg worker_ok = []" "aw_errmsg worker_boom = ''boom''"
    by (simp_all add: worker_ok_def worker_boom_def SetErrorMessage_def)
  from WorkComplete_invokes_callback [OF r, of True] m t
  have ok: "\<exists>g. invocations (trace (snd (OnWorkComplete True worker_ok host_worker)))
                  = [(g, 1, [])]"
    by auto
  from WorkComplete_invokes_callback [OF r', of True] m t
  have b1: "\<exists>g e. invocations (trace (snd (OnWorkComplete True worker_boom host_worker)))
                = [(g, 1, [e])]
         \<and> cell (heap (snd (OnWorkComplete True worker_boom host_worker))) e
             = Some (JError GenericError ''boom'')"
    by auto
  from WorkComplete_invokes_callback [OF r', of False] m t
  have b2: "\<exists>g e. invocations (trace (snd (OnWorkComplete False worker_boom host_worker)))
                = [(g, 1, [e])]
         \<and> cell (heap (snd (OnWorkComplete False worker_boom host_worker))) e
             = Some (JError GenericError ''boom'')"
    by auto
  from r r' m ok b1 b2 show ?thesis by blast
qed

text \<open>
  The two orders on the example worker: the handles differ, the call is the same up to
  their names.
\<close>

lemma OnWorkComplete_orders_example:
  "invocations (trace (snd (OnWorkComplete True worker_boom host_worker))) = [(2, 1, [4])]
   \<and> invocations (trace (snd (OnWorkComplete False worker_boom host_worker))) = [(4, 1, [3])]"
proof -
  have r': "cell (refs host_worker) (ref_ref (aw_callback worker_boom)) = Some (1, 1)"
    by (simp add: host_worker_def host0_def worker_boom_def SetErrorMessage_def worker_ok_def
        Reference_ctor_def cell_def)
  let ?h1 = "(called Abi_open_handle_scope host_worker)\<lparr>scopes := Suc (scopes host_worker)\<rparr>"
  have r1: "cell (refs ?h1) (ref_ref (aw_callback worker_boom)) = Some (1, 1)"
    using r' by (simp add: called_def traced_def)
  have l: "length (heap ?h1) = 1" "invocations (trace ?h1) = []"
    "aw_errmsg worker_boom \<noteq> []"
    by (simp_all add: called_def traced_def host_worker_def host0_def worker_boom_def
        SetErrorMessage_def)
  from OnError_receiver_first [OF r1] OnError_argument_first [OF r1] l show ?thesis
    by (simp add: OnWorkComplete_def WorkComplete_branches HandleScope_dtor_frame
        numeral_eq_Suc)
qed

end
